theory Spec2Isabelle
  imports Complex_Main "HOL-Library.Sublist"
begin

section \<open>JavaScript values, strings and errors\<close>

text \<open>
  The repository holds two editions of the class \<open>LLMUtility\<close>: the one of
  \<open>src/unnamed/part_000\<close> (methods \<open>initializeProviders\<close>, \<open>generateText\<close>,
  \<open>callProvider\<close>, \<open>formatPayload\<close>, \<open>extractResponse\<close>, \<open>getFallbackResponse\<close>) and
  the first one of \<open>src/app/api/mcp/route.ts\<close> (methods \<open>initProviders\<close>,
  \<open>generateText\<close>, \<open>call\<close>, \<open>makePayload\<close>, \<open>extract\<close>, \<open>fallback\<close>). Both are
  embedded below; the two \<open>generateText\<close> methods and the two constructors carry the
  suffixes \<open>_part000\<close> and \<open>_route\<close>. (route.ts holds a further edition, in
  TypeScript, whose \<open>extract\<close> does not parse: its \<open>anthropic\<close> line reads
  \<open>data?.content?.?.text\<close>. Its \<open>openai\<close> line is that of the two others.)

  A JavaScript value is a \<open>jsvalue\<close>: \<open>undefined\<close>, or what \<open>JSON.parse\<close> can build.
  An object is the list of its own properties in source order; a later binding of a key
  overrides an earlier one, as in an object literal and in \<open>JSON.parse\<close>.
  Strings are byte lists: an ASCII character is one \<open>char\<close>, any other code point
  stands as its UTF-8 bytes.
\<close>

datatype jsvalue =
    JUndefined
  | JNull
  | JBool bool
  | JNum real
  | JStr string
  | JArr "jsvalue list"
  | JObj "(string \<times> jsvalue) list"

datatype error =
    TypeError
  | NetworkError
  | TimeoutError
  | SyntaxError
  | HttpError nat
  | UnknownProvider string

text \<open>\<open>ToBoolean\<close>: what \<open>if (v)\<close>, \<open>v && \<dots>\<close> and \<open>v || \<dots>\<close> test.\<close>

fun truthy :: "jsvalue \<Rightarrow> bool" where
  "truthy JUndefined = False"
| "truthy JNull = False"
| "truthy (JBool b) = b"
| "truthy (JNum n) = (n \<noteq> 0)"
| "truthy (JStr s) = (s \<noteq> [])"
| "truthy (JArr xs) = True"
| "truthy (JObj kvs) = True"

text \<open>\<open>a || b\<close>.\<close>

definition or_else :: "jsvalue \<Rightarrow> jsvalue \<Rightarrow> jsvalue" where
  "or_else a b = (if truthy a then a else b)"

text \<open>
  Reading a property. \<open>own kvs k\<close> is the value an object with the properties \<open>kvs\<close>
  has under the key \<open>k\<close>. \<open>member v k\<close> is \<open>v.k\<close>: a \<open>TypeError\<close> on \<open>null\<close> and
  \<open>undefined\<close>, the own property on an object, and \<open>undefined\<close> on an array, a string,
  a number and a boolean. The last is right for the keys the source reads (\<open>choices\<close>,
  \<open>message\<close>, \<open>content\<close>, \<open>text\<close>, \<open>generated_text\<close>, \<open>inputs\<close>), none of which is
  a property of a built-in prototype. \<open>elem0 v\<close> is \<open>v[0]\<close>; on a string it is the
  string of its first unit. \<open>opt_member\<close> and \<open>opt_elem0\<close> are \<open>v?.k\<close> and \<open>v?.[0]\<close>.
\<close>

definition own :: "(string \<times> jsvalue) list \<Rightarrow> string \<Rightarrow> jsvalue" where
  "own kvs k = (case map_of (rev kvs) k of None \<Rightarrow> JUndefined | Some v \<Rightarrow> v)"

fun member :: "jsvalue \<Rightarrow> string \<Rightarrow> error + jsvalue" where
  "member JUndefined k = Inl TypeError"
| "member JNull k = Inl TypeError"
| "member (JObj kvs) k = Inr (own kvs k)"
| "member v k = Inr JUndefined"

fun elem0 :: "jsvalue \<Rightarrow> error + jsvalue" where
  "elem0 JUndefined = Inl TypeError"
| "elem0 JNull = Inl TypeError"
| "elem0 (JArr xs) = Inr (case xs of [] \<Rightarrow> JUndefined | x # _ \<Rightarrow> x)"
| "elem0 (JObj kvs) = Inr (own kvs ''0'')"
| "elem0 (JStr s) = Inr (case s of [] \<Rightarrow> JUndefined | c # _ \<Rightarrow> JStr [c])"
| "elem0 v = Inr JUndefined"

definition opt_member :: "jsvalue \<Rightarrow> string \<Rightarrow> jsvalue" where
  "opt_member v k = (case member v k of Inl e \<Rightarrow> JUndefined | Inr w \<Rightarrow> w)"

definition opt_elem0 :: "jsvalue \<Rightarrow> jsvalue" where
  "opt_elem0 v = (case elem0 v of Inl e \<Rightarrow> JUndefined | Inr w \<Rightarrow> w)"

fun isArray :: "jsvalue \<Rightarrow> bool" where
  "isArray (JArr xs) = True"
| "isArray v = False"

text \<open>
  \<open>String.prototype.trim\<close>. \<open>whiteSpace\<close> lists the code points ECMAScript strips
  (WhiteSpace and LineTerminator), each as its UTF-8 bytes; \<open>strip\<close> removes them from
  the front until none is left, and \<open>trim\<close> does so at both ends.
\<close>

definition whiteSpace :: "string list" where
  "whiteSpace =
    [[CHR 0x09], [CHR 0x0A], [CHR 0x0B], [CHR 0x0C], [CHR 0x0D], [CHR 0x20],
     [CHR 0xC2, CHR 0xA0],
     [CHR 0xE1, CHR 0x9A, CHR 0x80],
     [CHR 0xE2, CHR 0x80, CHR 0x80], [CHR 0xE2, CHR 0x80, CHR 0x81],
     [CHR 0xE2, CHR 0x80, CHR 0x82], [CHR 0xE2, CHR 0x80, CHR 0x83],
     [CHR 0xE2, CHR 0x80, CHR 0x84], [CHR 0xE2, CHR 0x80, CHR 0x85],
     [CHR 0xE2, CHR 0x80, CHR 0x86], [CHR 0xE2, CHR 0x80, CHR 0x87],
     [CHR 0xE2, CHR 0x80, CHR 0x88], [CHR 0xE2, CHR 0x80, CHR 0x89],
     [CHR 0xE2, CHR 0x80, CHR 0x8A],
     [CHR 0xE2, CHR 0x80, CHR 0xA8], [CHR 0xE2, CHR 0x80, CHR 0xA9],
     [CHR 0xE2, CHR 0x80, CHR 0xAF],
     [CHR 0xE2, CHR 0x81, CHR 0x9F],
     [CHR 0xE3, CHR 0x80, CHR 0x80],
     [CHR 0xEF, CHR 0xBB, CHR 0xBF]]"

function strip :: "string list \<Rightarrow> string \<Rightarrow> string" where
  "strip ws s =
     (case find (\<lambda>w. w \<noteq> [] \<and> prefix w s) ws of
        None \<Rightarrow> s
      | Some w \<Rightarrow> strip ws (drop (length w) s))"
  by pat_completeness auto
termination
  by (relation "measure (\<lambda>(ws, s). length s)") (auto simp: find_Some_iff prefix_def)

declare strip.simps [simp del]

definition trim :: "string \<Rightarrow> string" where
  "trim s = rev (strip (map rev whiteSpace) (rev (strip whiteSpace s)))"

text \<open>\<open>hay.includes(needle)\<close>, and \<open>s.replace(p, "")\<close> for a string \<open>p\<close>: the first
  occurrence of \<open>p\<close> is removed.\<close>

fun str_includes :: "string \<Rightarrow> string \<Rightarrow> bool" where
  "str_includes [] needle = (needle = [])"
| "str_includes (c # cs) needle = (prefix needle (c # cs) \<or> str_includes cs needle)"

fun remove_first :: "string \<Rightarrow> string \<Rightarrow> string" where
  "remove_first p [] = []"
| "remove_first p (c # cs) =
     (if prefix p (c # cs) then drop (length p) (c # cs) else c # remove_first p cs)"

text \<open>
  \<open>Math.random()\<close> returns an IEEE 754 double \<open>x\<close> with \<open>0 \<le> x < 1\<close>. The doubles of that
  range are the quotients \<open>mantissa / 2 ^ scale\<close> with \<open>mantissa < 2 ^ 53\<close> and
  \<open>53 \<le> scale \<le> 1074\<close>: a double has 53 significant bits, and the least positive one
  is \<open>2 ^ -1074\<close>.
\<close>

record unit_double =
  mantissa :: nat
  scale :: nat

definition is_unit_double :: "unit_double \<Rightarrow> bool" where
  "is_unit_double x = (mantissa x < 2 ^ 53 \<and> 53 \<le> scale x \<and> scale x \<le> 1074)"

text \<open>
  The number of binary digits of a natural, and the rounding of a natural to 53
  significant bits, to the nearest and on a tie to the one whose last kept bit is even:
  the rounding of every arithmetic operation on doubles.
\<close>

fun bit_length :: "nat \<Rightarrow> nat" where
  "bit_length n = (if n = 0 then 0 else Suc (bit_length (n div 2)))"

declare bit_length.simps [simp del]

definition round53 :: "nat \<Rightarrow> nat" where
  "round53 M =
     (let s = bit_length M - 53; q = M div 2 ^ s; r = M mod 2 ^ s
      in if 2 ^ s < 2 * r \<or> (2 * r = 2 ^ s \<and> odd q) then (q + 1) * 2 ^ s else q * 2 ^ s)"

text \<open>
  \<open>Math.floor(x * n)\<close> for such a double \<open>x\<close> and the length \<open>n\<close> of an array, a natural
  below \<open>2 ^ 32\<close> and so a double itself. The exact product is
  \<open>mantissa * n / 2 ^ scale\<close>; the product of the two doubles is that number rounded to
  53 significant bits, which is \<open>round53 (mantissa * n) / 2 ^ scale\<close> (a numerator of
  more than 53 bits makes the product at least \<open>2 ^ -1021\<close>, a normal double, and the
  product is below \<open>2 ^ 32\<close>); \<open>Math.floor\<close> of a double is exact.
\<close>

definition floor_times :: "unit_double \<Rightarrow> nat \<Rightarrow> nat" where
  "floor_times x n = round53 (mantissa x * n) div 2 ^ scale x"

text \<open>
  What the program takes from its host and does not compute itself:
  \<open>String.prototype.toLowerCase\<close>, the conversion \<open>ToString\<close> that \<open>replace\<close> applies to
  a search value that is not a string, and the double \<open>Math.random()\<close> returns (the
  program draws at most one per call of \<open>generateText\<close>).
\<close>

record host =
  toLowerCase :: "string \<Rightarrow> string"
  ToString :: "jsvalue \<Rightarrow> error + string"
  Math_random :: unit_double

text \<open>\<open>recv.replace(pat, "")\<close> and \<open>recv.trim()\<close> on a value: a \<open>TypeError\<close> when the
  receiver is not a string, since no other value carries these methods.\<close>

definition call_replace :: "host \<Rightarrow> jsvalue \<Rightarrow> jsvalue \<Rightarrow> error + jsvalue" where
  "call_replace h recv pat =
     (case recv of
        JStr s \<Rightarrow>
          (case pat of
             JStr p \<Rightarrow> Inr (JStr (remove_first p s))
           | _ \<Rightarrow> (case ToString h pat of
                     Inl e \<Rightarrow> Inl e
                   | Inr p \<Rightarrow> Inr (JStr (remove_first p s))))
      | _ \<Rightarrow> Inl TypeError)"

definition call_trim :: "jsvalue \<Rightarrow> error + jsvalue" where
  "call_trim recv = (case recv of JStr s \<Rightarrow> Inr (JStr (trim s)) | _ \<Rightarrow> Inl TypeError)"

section \<open>Data model\<close>

text \<open>The context object of a call; a field the caller left out is \<open>None\<close>.\<close>

record generation_context =
  systemPrompt :: "string option"
  maxTokens :: "real option"
  temperature :: "real option"
  type :: "string option"
  userInfo :: "string option"
  name :: "string option"

text \<open>\<open>field || default\<close> on a string field and on a number field.\<close>

definition str_or :: "string option \<Rightarrow> string \<Rightarrow> string" where
  "str_or field d = (case field of None \<Rightarrow> d | Some s \<Rightarrow> if s \<noteq> [] then s else d)"

definition num_or :: "real option \<Rightarrow> real \<Rightarrow> real" where
  "num_or field d = (case field of None \<Rightarrow> d | Some x \<Rightarrow> if x \<noteq> 0 then x else d)"

text \<open>The object \<open>generateText\<close> returns: \<open>{text, provider, model}\<close>.\<close>

record generation_result =
  res_text :: jsvalue
  res_provider :: string
  res_model :: string

record provider =
  name :: string
  endpoint :: string
  headers :: "(string \<times> string) list"
  model :: string
  priority :: nat

record llm =
  providers :: "provider list"
  fallbackEnabled :: bool
  maxRetries :: nat
  retryDelay :: nat

record env =
  OPENAI_API_KEY :: "string option"
  ANTHROPIC_API_KEY :: "string option"
  HF_TOKEN :: "string option"

text \<open>\<open>if (KEY)\<close> on an environment variable: set, and not the empty string.\<close>

definition configured :: "string option \<Rightarrow> bool" where
  "configured v = (case v of None \<Rightarrow> False | Some s \<Rightarrow> s \<noteq> [])"

section \<open>The network and the effects of a call\<close>

text \<open>
  \<open>fetch\<close> is the program's only way out. A \<open>network\<close> gives, for an endpoint and the
  number \<open>n\<close> of the request (the \<open>n\<close>-th one the current \<open>generateText\<close> sends to that
  endpoint, counted from 1), what comes back: the promise rejects (transport failure or
  the 30 second timeout), or a response with a status and a body that \<open>resp.json()\<close>
  parses or not. Each provider of the registry has its own endpoint and is asked in one
  run of attempts, so \<open>n\<close> is the attempt number of the retry loop.
  What a call does besides returning is the list of its events, in order.
\<close>

datatype body = Unparseable | Json jsvalue

datatype outcome = Rejected error | Response nat body

type_synonym network = "string \<Rightarrow> nat \<Rightarrow> outcome"

datatype event = Fetch string jsvalue | Sleep nat | Warn string

definition ok :: "nat \<Rightarrow> bool" where
  "ok status = (200 \<le> status \<and> status \<le> 299)"

text \<open>How one pass through the body of the retry loop ends.\<close>

datatype step = Continue | Return jsvalue | Throw error

definition prepend :: "event list \<Rightarrow> 'a \<times> event list \<Rightarrow> 'a \<times> event list" where
  "prepend evs r = (fst r, evs @ snd r)"

section \<open>The edition of part_000\<close>

definition initializeProviders :: "env \<Rightarrow> provider list" where
  "initializeProviders e =
     sort_key priority
       ((if configured (OPENAI_API_KEY e) then
           [\<lparr>provider.name = ''openai'',
             endpoint = ''https://api.openai.com/v1/chat/completions'',
             headers = [(''Authorization'', ''Bearer '' @ the (OPENAI_API_KEY e)),
                        (''Content-Type'', ''application/json'')],
             model = ''gpt-3.5-turbo'',
             priority = 1\<rparr>]
         else []) @
        (if configured (ANTHROPIC_API_KEY e) then
           [\<lparr>provider.name = ''anthropic'',
             endpoint = ''https://api.anthropic.com/v1/messages'',
             headers = [(''x-api-key'', the (ANTHROPIC_API_KEY e)),
                        (''Content-Type'', ''application/json''),
                        (''anthropic-version'', ''2023-06-01'')],
             model = ''claude-3-haiku-20240307'',
             priority = 2\<rparr>]
         else []) @
        (if configured (HF_TOKEN e) then
           [\<lparr>provider.name = ''huggingface'',
             endpoint = ''https://api-inference.huggingface.co/models/microsoft/DialoGPT-small'',
             headers = [(''Authorization'', ''Bearer '' @ the (HF_TOKEN e)),
                        (''Content-Type'', ''application/json'')],
             model = ''microsoft/DialoGPT-small'',
             priority = 3\<rparr>]
         else []))"

definition constructor_part000 :: "env \<Rightarrow> llm" where
  "constructor_part000 e =
     \<lparr>providers = initializeProviders e, fallbackEnabled = True,
      maxRetries = 3, retryDelay = 1000\<rparr>"

definition formatPayload :: "provider \<Rightarrow> string \<Rightarrow> generation_context \<Rightarrow> error + jsvalue" where
  "formatPayload p prompt ctx =
     (if provider.name p = ''openai'' then
        Inr (JObj
          [(''model'', JStr (model p)),
           (''messages'', JArr
              [JObj [(''role'', JStr ''system''),
                     (''content'', JStr (str_or (systemPrompt ctx) ''You are a helpful assistant.''))],
               JObj [(''role'', JStr ''user''), (''content'', JStr prompt)]]),
           (''max_tokens'', JNum (num_or (maxTokens ctx) 150)),
           (''temperature'', JNum (num_or (temperature ctx) (8 / 10))),
           (''top_p'', JNum (9 / 10))])
      else if provider.name p = ''anthropic'' then
        Inr (JObj
          [(''model'', JStr (model p)),
           (''max_tokens'', JNum (num_or (maxTokens ctx) 150)),
           (''system'', JStr (str_or (systemPrompt ctx) ''You are a helpful assistant.'')),
           (''messages'', JArr [JObj [(''role'', JStr ''user''), (''content'', JStr prompt)]]),
           (''temperature'', JNum (num_or (temperature ctx) (8 / 10)))])
      else if provider.name p = ''huggingface'' then
        Inr (JObj
          [(''inputs'', JStr prompt),
           (''parameters'', JObj
              [(''max_new_tokens'', JNum (num_or (maxTokens ctx) 150)),
               (''temperature'', JNum (num_or (temperature ctx) (8 / 10))),
               (''top_p'', JNum (9 / 10)),
               (''do_sample'', JBool True)])])
      else Inl (UnknownProvider (provider.name p)))"

text \<open>
  \<open>extractResponse\<close>. The \<open>anthropic\<close> case is commented out in the source, so that
  name falls to \<open>default\<close>. In the \<open>huggingface\<close> case the source reads
  \<open>generated_text\<close> and \<open>inputs\<close> from the array itself.
\<close>

definition extractResponse :: "host \<Rightarrow> provider \<Rightarrow> jsvalue \<Rightarrow> error + jsvalue" where
  "extractResponse h p data =
     (if provider.name p = ''openai'' then
        (case member data ''choices'' of
           Inl e \<Rightarrow> Inl e
         | Inr choices \<Rightarrow>
             Inr (or_else (opt_member (opt_member (opt_elem0 choices) ''message'') ''content'')
                    (JStr [])))
      else if provider.name p = ''huggingface'' then
        (if isArray data \<and> truthy (opt_member data ''generated_text'') then
           (case call_replace h (opt_member data ''generated_text'')
                   (or_else (opt_member data ''inputs'') (JStr [])) of
              Inl e \<Rightarrow> Inl e
            | Inr replaced \<Rightarrow> call_trim replaced)
         else Inr (JStr []))
      else Inr (JStr []))"

text \<open>
  One pass through the \<open>try\<close> block of \<open>callProvider\<close>, for attempt \<open>n\<close>. A 429 sleeps
  and continues inside the block; every other failure is thrown to the \<open>catch\<close>.
\<close>

definition attempt_part000 ::
  "llm \<Rightarrow> host \<Rightarrow> network \<Rightarrow> provider \<Rightarrow> jsvalue \<Rightarrow> nat \<Rightarrow> step \<times> event list" where
  "attempt_part000 u h net p payload n =
     (case net (endpoint p) n of
        Rejected e \<Rightarrow> (Throw e, [Fetch (endpoint p) payload])
      | Response status b \<Rightarrow>
          if \<not> ok status then
            (if status = 429 then
               (Continue, [Fetch (endpoint p) payload, Sleep (retryDelay u * n)])
             else (Throw (HttpError status), [Fetch (endpoint p) payload]))
          else
            (case b of
               Unparseable \<Rightarrow> (Throw SyntaxError, [Fetch (endpoint p) payload])
             | Json data \<Rightarrow>
                 (case extractResponse h p data of
                    Inl e \<Rightarrow> (Throw e, [Fetch (endpoint p) payload])
                  | Inr v \<Rightarrow> (Return v, [Fetch (endpoint p) payload]))))"

text \<open>
  The \<open>for\<close> loop of \<open>callProvider\<close> from \<open>attempt\<close> on. The \<open>catch\<close> rethrows on the
  last attempt and otherwise sleeps and goes on; a loop that runs out returns
  \<open>undefined\<close>.
\<close>

function callProvider_loop ::
  "llm \<Rightarrow> host \<Rightarrow> network \<Rightarrow> provider \<Rightarrow> jsvalue \<Rightarrow> nat \<Rightarrow> (error + jsvalue) \<times> event list" where
  "callProvider_loop u h net p payload attempt =
     (if attempt \<le> maxRetries u then
        (case attempt_part000 u h net p payload attempt of
           (Return v, evs) \<Rightarrow> (Inr v, evs)
         | (Continue, evs) \<Rightarrow> prepend evs (callProvider_loop u h net p payload (attempt + 1))
         | (Throw e, evs) \<Rightarrow>
             if attempt = maxRetries u then (Inl e, evs)
             else prepend (evs @ [Sleep (retryDelay u * attempt)])
                    (callProvider_loop u h net p payload (attempt + 1)))
      else (Inr JUndefined, []))"
  by pat_completeness auto
termination
  by (relation "measure (\<lambda>(u, h, net, p, payload, attempt). maxRetries u + 1 - attempt)") auto

declare callProvider_loop.simps [simp del]

definition callProvider ::
  "llm \<Rightarrow> host \<Rightarrow> network \<Rightarrow> provider \<Rightarrow> string \<Rightarrow> generation_context
     \<Rightarrow> (error + jsvalue) \<times> event list" where
  "callProvider u h net p prompt ctx =
     (case formatPayload p prompt ctx of
        Inl e \<Rightarrow> (Inl e, [])
      | Inr payload \<Rightarrow> callProvider_loop u h net p payload 1)"

text \<open>\<open>array[Math.floor(Math.random() * array.length)]\<close>, the product being that of two
  doubles; an index outside the array reads \<open>undefined\<close>.\<close>

definition pickRandom :: "host \<Rightarrow> string list \<Rightarrow> jsvalue" where
  "pickRandom h array =
     (let i = floor_times (Math_random h) (length array)
      in if i < length array then JStr (array ! i) else JUndefined)"

definition templates :: "generation_context \<Rightarrow> string list" where
  "templates ctx =
     [''Just like Shah Rukh Khan in his movies, '' @ str_or (userInfo ctx) ''you''
        @ '' have made my heart skip a beat!'',
      ''If I were to write a love story, '' @ str_or (userInfo ctx) ''beautiful''
        @ '', you would be both the beginning and the happy ending.'',
      ''Main hoon na, '' @ str_or (userInfo ctx) ''gorgeous''
        @ ''? Because like SRK, I promise to always be there for you.'']"

text \<open>The three emoji and the dash of the \<open>flirty_reply\<close> templates, in UTF-8.\<close>

definition dancer :: string where
  "dancer = [CHR 0xF0, CHR 0x9F, CHR 0x92, CHR 0x83]"

definition hugging_face :: string where
  "hugging_face = [CHR 0xF0, CHR 0x9F, CHR 0xA4, CHR 0x97]"

definition smiling_face :: string where
  "smiling_face = [CHR 0xF0, CHR 0x9F, CHR 0x98, CHR 0x8A]"

definition em_dash :: string where
  "em_dash = [CHR 0xE2, CHR 0x80, CHR 0x94]"

definition generic_fallback :: string where
  "generic_fallback = ''I'm here to help! Let me know what you'd like to know.''"

definition getFallbackResponse :: "host \<Rightarrow> string \<Rightarrow> generation_context \<Rightarrow> jsvalue" where
  "getFallbackResponse h prompt ctx =
     (let promptLower = toLowerCase h prompt in
      if type ctx = Some ''pickup_line'' then pickRandom h (templates ctx)
      else if type ctx = Some ''flirty_reply'' then
        (if str_includes promptLower ''hello'' \<or> str_includes promptLower ''hi'' then
           JStr (''Namaste '' @ str_or (generation_context.name ctx) ''beautiful''
                 @ ''! Like in my movies, you've made my heart do a little dance '' @ dancer)
         else if str_includes promptLower ''thank'' then
           JStr (''Anything for you, '' @ str_or (generation_context.name ctx) ''gorgeous''
                 @ ''! Like I always say in my films '' @ em_dash @ '' main hoon na! ''
                 @ hugging_face)
         else
           JStr (''You always know just what to say to make me smile, ''
                 @ str_or (generation_context.name ctx) ''beautiful'' @ ''! '' @ smiling_face))
      else JStr generic_fallback)"

text \<open>
  What \<open>generateText\<close> hands back: the empty-registry branch of part_000 returns the
  fallback text itself, every other path an object.
\<close>

datatype returned = Bare jsvalue | Res generation_result

text \<open>\<open>result.text\<close>, \<open>result.provider\<close> and \<open>result.model\<close> as the tool handlers read
  them; a string has none of these properties.\<close>

fun text_of :: "returned \<Rightarrow> jsvalue" where
  "text_of (Bare v) = JUndefined"
| "text_of (Res r) = res_text r"

fun provider_of :: "returned \<Rightarrow> jsvalue" where
  "provider_of (Bare v) = JUndefined"
| "provider_of (Res r) = JStr (res_provider r)"

fun model_of :: "returned \<Rightarrow> jsvalue" where
  "model_of (Bare v) = JUndefined"
| "model_of (Res r) = JStr (res_model r)"

text \<open>The test \<open>response && response.trim().length > 0\<close>; \<open>trim\<close> is called only on a
  truthy response and throws unless that is a string.\<close>

definition nonblank :: "jsvalue \<Rightarrow> error + bool" where
  "nonblank response =
     (if \<not> truthy response then Inr False
      else case response of JStr s \<Rightarrow> Inr (0 < length (trim s)) | _ \<Rightarrow> Inl TypeError)"

text \<open>The \<open>try\<close> block of \<open>generateText\<close> for one provider: \<open>Inr (Some response)\<close> when
  it returns the response, \<open>Inr None\<close> when it falls through, \<open>Inl\<close> when it throws.\<close>

definition tryProvider ::
  "llm \<Rightarrow> host \<Rightarrow> network \<Rightarrow> provider \<Rightarrow> string \<Rightarrow> generation_context
     \<Rightarrow> (error + jsvalue option) \<times> event list" where
  "tryProvider u h net p prompt ctx =
     (case callProvider u h net p prompt ctx of
        (Inl e, evs) \<Rightarrow> (Inl e, evs)
      | (Inr response, evs) \<Rightarrow>
          (case nonblank response of
             Inl e \<Rightarrow> (Inl e, evs)
           | Inr True \<Rightarrow> (Inr (Some response), evs)
           | Inr False \<Rightarrow> (Inr None, evs)))"

text \<open>The \<open>for\<close> loop of \<open>generateText\<close> over the providers still to try, with the
  return that follows it.\<close>

fun generateText_loop ::
  "llm \<Rightarrow> host \<Rightarrow> network \<Rightarrow> string \<Rightarrow> generation_context \<Rightarrow> provider list
     \<Rightarrow> (error + returned) \<times> event list" where
  "generateText_loop u h net prompt ctx [] =
     (Inr (Res \<lparr>res_text = getFallbackResponse h prompt ctx,
                res_provider = ''fallback'', res_model = ''local''\<rparr>), [])"
| "generateText_loop u h net prompt ctx (p # ps) =
     (case tryProvider u h net p prompt ctx of
        (Inr (Some response), evs) \<Rightarrow>
          (Inr (Res \<lparr>res_text = response, res_provider = provider.name p,
                     res_model = model p\<rparr>), evs)
      | (Inr None, evs) \<Rightarrow> prepend evs (generateText_loop u h net prompt ctx ps)
      | (Inl e, evs) \<Rightarrow>
          if \<not> fallbackEnabled u then (Inl e, evs @ [Warn (provider.name p)])
          else prepend (evs @ [Warn (provider.name p)])
                 (generateText_loop u h net prompt ctx ps))"

definition generateText_part000 ::
  "llm \<Rightarrow> host \<Rightarrow> network \<Rightarrow> string \<Rightarrow> generation_context
     \<Rightarrow> (error + returned) \<times> event list" where
  "generateText_part000 u h net prompt ctx =
     (if length (providers u) = 0 then (Inr (Bare (getFallbackResponse h prompt ctx)), [])
      else generateText_loop u h net prompt ctx (providers u))"

section \<open>The edition of route.ts\<close>

definition initProviders :: "env \<Rightarrow> provider list" where
  "initProviders e =
     sort_key priority
       ((if configured (OPENAI_API_KEY e) then
           [\<lparr>provider.name = ''openai'',
             endpoint = ''https://api.openai.com/v1/chat/completions'',
             headers = [(''Authorization'', ''Bearer '' @ the (OPENAI_API_KEY e)),
                        (''Content-Type'', ''application/json'')],
             model = ''gpt-3.5-turbo'',
             priority = 1\<rparr>]
         else []) @
        (if configured (ANTHROPIC_API_KEY e) then
           [\<lparr>provider.name = ''anthropic'',
             endpoint = ''https://api.anthropic.com/v1/messages'',
             headers = [(''x-api-key'', the (ANTHROPIC_API_KEY e)),
                        (''Content-Type'', ''application/json''),
                        (''anthropic-version'', ''2023-06-01'')],
             model = ''claude-3-haiku-20240307'',
             priority = 2\<rparr>]
         else []) @
        (if configured (HF_TOKEN e) then
           [\<lparr>provider.name = ''huggingface'',
             endpoint = ''https://api-inference.huggingface.co/models/microsoft/DialoGPT-small'',
             headers = [(''Authorization'', ''Bearer '' @ the (HF_TOKEN e)),
                        (''Content-Type'', ''application/json'')],
             model = ''microsoft/DialoGPT-small'',
             priority = 3\<rparr>]
         else []))"

definition constructor_route :: "env \<Rightarrow> llm" where
  "constructor_route e =
     \<lparr>providers = initProviders e, fallbackEnabled = True,
      maxRetries = 3, retryDelay = 1000\<rparr>"

text \<open>\<open>makePayload\<close>: the \<open>switch\<close> has no \<open>default\<close>, so any other name gives
  \<open>undefined\<close>.\<close>

definition makePayload :: "provider \<Rightarrow> string \<Rightarrow> generation_context \<Rightarrow> jsvalue" where
  "makePayload p prompt ctx =
     (if provider.name p = ''openai'' then
        JObj
          [(''model'', JStr (model p)),
           (''messages'', JArr
              [JObj [(''role'', JStr ''system''),
                     (''content'', JStr (str_or (systemPrompt ctx) ''You are a helpful assistant.''))],
               JObj [(''role'', JStr ''user''), (''content'', JStr prompt)]]),
           (''max_tokens'', JNum (num_or (maxTokens ctx) 150)),
           (''temperature'', JNum (num_or (temperature ctx) (8 / 10))),
           (''top_p'', JNum (9 / 10))]
      else if provider.name p = ''anthropic'' then
        JObj
          [(''model'', JStr (model p)),
           (''system'', JStr (str_or (systemPrompt ctx) ''You are a helpful assistant.'')),
           (''messages'', JArr [JObj [(''role'', JStr ''user''), (''content'', JStr prompt)]]),
           (''max_tokens'', JNum (num_or (maxTokens ctx) 150)),
           (''temperature'', JNum (num_or (temperature ctx) (8 / 10)))]
      else if provider.name p = ''huggingface'' then
        JObj
          [(''inputs'', JStr prompt),
           (''parameters'', JObj
              [(''max_new_tokens'', JNum (num_or (maxTokens ctx) 150)),
               (''temperature'', JNum (num_or (temperature ctx) (8 / 10))),
               (''top_p'', JNum (9 / 10)),
               (''do_sample'', JBool True)])]
      else JUndefined)"

text \<open>\<open>extract\<close> (the name is taken in Isabelle, hence the suffix). The \<open>openai\<close>
  line reads \<open>data.choices\<close>, the \<open>anthropic\<close> line \<open>data?.content\<close>.\<close>

definition extract_route :: "host \<Rightarrow> provider \<Rightarrow> jsvalue \<Rightarrow> error + jsvalue" where
  "extract_route h p data =
     (if provider.name p = ''openai'' then
        (case member data ''choices'' of
           Inl e \<Rightarrow> Inl e
         | Inr choices \<Rightarrow>
             Inr (or_else (opt_member (opt_member (opt_elem0 choices) ''message'') ''content'')
                    (JStr [])))
      else if provider.name p = ''anthropic'' then
        Inr (or_else (opt_member (opt_elem0 (opt_member data ''content'')) ''text'') (JStr []))
      else if provider.name p = ''huggingface'' \<and> isArray data
                \<and> truthy (opt_member (opt_elem0 data) ''generated_text'') then
        (case call_replace h (opt_member (opt_elem0 data) ''generated_text'')
                (or_else (opt_member (opt_elem0 data) ''inputs'') (JStr [])) of
           Inl e \<Rightarrow> Inl e
         | Inr replaced \<Rightarrow> call_trim replaced)
      else Inr (JStr []))"

text \<open>The robot emoji of the fallback text, in UTF-8.\<close>

definition robot :: string where
  "robot = [CHR 0xF0, CHR 0x9F, CHR 0xA4, CHR 0x96]"

definition fallback :: "string \<Rightarrow> generation_context \<Rightarrow> string" where
  "fallback prompt ctx = robot @ '' (fallback response)''"

text \<open>One pass through the body of the \<open>for\<close> loop of \<open>call\<close>, for attempt \<open>i\<close>; there
  is no \<open>try\<close> here, so whatever is thrown leaves \<open>call\<close>.\<close>

definition attempt_route ::
  "llm \<Rightarrow> host \<Rightarrow> network \<Rightarrow> provider \<Rightarrow> jsvalue \<Rightarrow> nat \<Rightarrow> step \<times> event list" where
  "attempt_route u h net p payload i =
     (case net (endpoint p) i of
        Rejected e \<Rightarrow> (Throw e, [Fetch (endpoint p) payload])
      | Response status b \<Rightarrow>
          if ok status then
            (case b of
               Unparseable \<Rightarrow> (Throw SyntaxError, [Fetch (endpoint p) payload])
             | Json data \<Rightarrow>
                 (case extract_route h p data of
                    Inl e \<Rightarrow> (Throw e, [Fetch (endpoint p) payload])
                  | Inr v \<Rightarrow> (Return v, [Fetch (endpoint p) payload])))
          else if status = 429 then
            (Continue, [Fetch (endpoint p) payload, Sleep (retryDelay u * i)])
          else (Throw (HttpError status), [Fetch (endpoint p) payload]))"

text \<open>The \<open>for\<close> loop of \<open>call\<close> from attempt \<open>i\<close> on; a loop that runs out returns
  \<open>undefined\<close>.\<close>

function call_loop ::
  "llm \<Rightarrow> host \<Rightarrow> network \<Rightarrow> provider \<Rightarrow> jsvalue \<Rightarrow> nat \<Rightarrow> (error + jsvalue) \<times> event list" where
  "call_loop u h net p payload i =
     (if i \<le> maxRetries u then
        (case attempt_route u h net p payload i of
           (Return v, evs) \<Rightarrow> (Inr v, evs)
         | (Continue, evs) \<Rightarrow> prepend evs (call_loop u h net p payload (i + 1))
         | (Throw e, evs) \<Rightarrow> (Inl e, evs))
      else (Inr JUndefined, []))"
  by pat_completeness auto
termination
  by (relation "measure (\<lambda>(u, h, net, p, payload, i). maxRetries u + 1 - i)") auto

declare call_loop.simps [simp del]

definition call ::
  "llm \<Rightarrow> host \<Rightarrow> network \<Rightarrow> provider \<Rightarrow> string \<Rightarrow> generation_context
     \<Rightarrow> (error + jsvalue) \<times> event list" where
  "call u h net p prompt ctx = call_loop u h net p (makePayload p prompt ctx) 1"

text \<open>The \<open>for\<close> loop of \<open>generateText\<close> over the providers still to try, with the
  return that follows it; \<open>if (out)\<close> takes any truthy value.\<close>

fun generateText_for ::
  "llm \<Rightarrow> host \<Rightarrow> network \<Rightarrow> string \<Rightarrow> generation_context \<Rightarrow> provider list
     \<Rightarrow> (error + returned) \<times> event list" where
  "generateText_for u h net prompt ctx [] =
     (Inr (Res \<lparr>res_text = JStr (fallback prompt ctx),
                res_provider = ''fallback'', res_model = ''local''\<rparr>), [])"
| "generateText_for u h net prompt ctx (p # ps) =
     (case call u h net p prompt ctx of
        (Inr out, evs) \<Rightarrow>
          if truthy out then
            (Inr (Res \<lparr>res_text = out, res_provider = provider.name p, res_model = model p\<rparr>),
             evs)
          else prepend evs (generateText_for u h net prompt ctx ps)
      | (Inl err, evs) \<Rightarrow>
          prepend (evs @ [Warn (provider.name p)]) (generateText_for u h net prompt ctx ps))"

definition generateText_route ::
  "llm \<Rightarrow> host \<Rightarrow> network \<Rightarrow> string \<Rightarrow> generation_context
     \<Rightarrow> (error + returned) \<times> event list" where
  "generateText_route u h net prompt ctx =
     (if providers u = [] then
        (Inr (Res \<lparr>res_text = JStr (fallback prompt ctx),
                   res_provider = ''fallback'', res_model = ''local''\<rparr>), [])
      else generateText_for u h net prompt ctx (providers u))"

section \<open>Vocabulary of the claims\<close>

text \<open>The status of an outcome, if it is a response, and whether the request was
  rejected (a transport failure or the timeout).\<close>

fun status_of :: "outcome \<Rightarrow> nat option" where
  "status_of (Rejected e) = None"
| "status_of (Response status b) = Some status"


text \<open>The events of \<open>k\<close> attempts in a row that each end in a wait, the first of them
  numbered \<open>a\<close>: a request, then a sleep of \<open>retryDelay\<close> times the attempt number.\<close>

definition backoff :: "llm \<Rightarrow> provider \<Rightarrow> jsvalue \<Rightarrow> nat \<Rightarrow> nat \<Rightarrow> event list" where
  "backoff u p payload a k =
     concat (map (\<lambda>i. [Fetch (endpoint p) payload, Sleep (retryDelay u * i)]) [a..<a + k])"

text \<open>The endpoints requested and the waits made, read off a list of events.\<close>

fun fetches :: "event list \<Rightarrow> string list" where
  "fetches [] = []"
| "fetches (Fetch url payload # evs) = url # fetches evs"
| "fetches (ev # evs) = fetches evs"

fun sleeps :: "event list \<Rightarrow> nat list" where
  "sleeps [] = []"
| "sleeps (Sleep ms # evs) = ms # sleeps evs"
| "sleeps (ev # evs) = sleeps evs"


section \<open>Sample inputs\<close>

text \<open>
  A host for the worked examples: \<open>toLowerCase\<close> maps the letters A to Z, \<open>ToString\<close>
  is that of strings, booleans, \<open>null\<close>, \<open>undefined\<close> and plain objects, and the random
  draw is one half. No example converts a number or an array to a string; on these the
  sample \<open>ToString\<close> only holds a place.
\<close>

definition ascii_lower :: "char \<Rightarrow> char" where
  "ascii_lower c =
     (let n = of_char c :: nat in if 65 \<le> n \<and> n \<le> 90 then char_of (n + 32) else c)"

definition sample_ToString :: "jsvalue \<Rightarrow> error + string" where
  "sample_ToString v =
     (case v of
        JStr s \<Rightarrow> Inr s
      | JBool b \<Rightarrow> Inr (if b then ''true'' else ''false'')
      | JNull \<Rightarrow> Inr ''null''
      | JUndefined \<Rightarrow> Inr ''undefined''
      | JObj kvs \<Rightarrow> Inr ''[object Object]''
      | JArr xs \<Rightarrow> Inr []
      | JNum x \<Rightarrow> Inr ''0'')"

definition sample_host :: host where
  "sample_host =
     \<lparr>toLowerCase = map ascii_lower, ToString = sample_ToString,
      Math_random = \<lparr>mantissa = 2 ^ 52, scale = 53\<rparr>\<rparr>"

text \<open>A host whose draw is the double \<open>0.6666666666666666\<close>, the one next below two
  thirds.\<close>

definition two_thirds_host :: host where
  "two_thirds_host = sample_host\<lparr>Math_random := \<lparr>mantissa = 6004799503160661, scale = 53\<rparr>\<rparr>"

text \<open>Environments: no credential at all, the OpenAI key alone, and all three.\<close>

definition no_keys :: env where
  "no_keys = \<lparr>OPENAI_API_KEY = None, ANTHROPIC_API_KEY = None, HF_TOKEN = None\<rparr>"

definition openai_key :: env where
  "openai_key = \<lparr>OPENAI_API_KEY = Some ''sk-test'', ANTHROPIC_API_KEY = None, HF_TOKEN = None\<rparr>"

definition all_keys :: env where
  "all_keys =
     \<lparr>OPENAI_API_KEY = Some ''sk-test'', ANTHROPIC_API_KEY = Some ''ak-test'',
      HF_TOKEN = Some ''hf-test''\<rparr>"

text \<open>The three providers the constructors build from \<open>all_keys\<close>.\<close>

definition openai :: provider where
  "openai =
     \<lparr>provider.name = ''openai'',
      endpoint = ''https://api.openai.com/v1/chat/completions'',
      headers = [(''Authorization'', ''Bearer sk-test''), (''Content-Type'', ''application/json'')],
      model = ''gpt-3.5-turbo'',
      priority = 1\<rparr>"

definition anthropic :: provider where
  "anthropic =
     \<lparr>provider.name = ''anthropic'',
      endpoint = ''https://api.anthropic.com/v1/messages'',
      headers = [(''x-api-key'', ''ak-test''), (''Content-Type'', ''application/json''),
                 (''anthropic-version'', ''2023-06-01'')],
      model = ''claude-3-haiku-20240307'',
      priority = 2\<rparr>"

definition huggingface :: provider where
  "huggingface =
     \<lparr>provider.name = ''huggingface'',
      endpoint = ''https://api-inference.huggingface.co/models/microsoft/DialoGPT-small'',
      headers = [(''Authorization'', ''Bearer hf-test''), (''Content-Type'', ''application/json'')],
      model = ''microsoft/DialoGPT-small'',
      priority = 3\<rparr>"

text \<open>Contexts: the empty object, and \<open>{type: "pickup_line"}\<close>.\<close>

definition no_context :: generation_context where
  "no_context =
     \<lparr>systemPrompt = None, maxTokens = None, temperature = None, type = None,
      userInfo = None, generation_context.name = None\<rparr>"

definition pickup_context :: generation_context where
  "pickup_context = no_context\<lparr>type := Some ''pickup_line''\<rparr>"

text \<open>The body \<open>{"choices": [{"message": {"content": c}}]}\<close> of a chat completion.\<close>

definition completion :: "jsvalue \<Rightarrow> jsvalue" where
  "completion c = JObj [(''choices'', JArr [JObj [(''message'', JObj [(''content'', c)])]])]"

text \<open>Two networks: one answers 429 twice and then with the completion \<open>"Hello"\<close>, the
  other answers 429 once and then with a completion that is a single space.\<close>

definition limited_net :: network where
  "limited_net url n =
     (if n \<le> 2 then Response 429 Unparseable
      else Response 200 (Json (completion (JStr ''Hello''))))"

definition blank_net :: network where
  "blank_net url n =
     (if n \<le> 1 then Response 429 Unparseable
      else Response 200 (Json (completion (JStr '' ''))))"

text \<open>
  More networks: every answer is the completion of a single space; the first request is
  rejected and the next ones answer \<open>"Hello"\<close>; the first answer is a 500 and the next
  ones \<open>"Hello"\<close>; every request times out; every answer is a 500.
\<close>

definition space_net :: network where
  "space_net url n = Response 200 (Json (completion (JStr '' '')))"



definition down_net :: network where
  "down_net url n = Rejected TimeoutError"




text \<open>A network whose every answer is the completion \<open>"Hello"\<close>.\<close>

definition hello_net :: network where
  "hello_net url n = Response 200 (Json (completion (JStr ''Hello'')))"

text \<open>The context \<open>{temperature: 0}\<close>.\<close>

definition zero_temperature :: generation_context where
  "zero_temperature = no_context\<lparr>temperature := Some 0\<rparr>"

section \<open>Auxiliary facts\<close>

lemma prepend_pair [simp]: "prepend evs (r, evs') = (r, evs @ evs')"
  by (simp add: prepend_def)

lemma fst_prepend [simp]: "fst (prepend evs x) = fst x"
  by (simp add: prepend_def)

lemma snd_prepend [simp]: "snd (prepend evs x) = evs @ snd x"
  by (simp add: prepend_def)

lemma prepend_Nil [simp]: "prepend [] x = x"
  by (simp add: prepend_def)

lemma prepend_prepend [simp]: "prepend evs (prepend evs' x) = prepend (evs @ evs') x"
  by (simp add: prepend_def)

subsection \<open>The loop over the providers never throws\<close>


lemma generateText_for_returns:
  "\<exists>r. fst (generateText_for u h net prompt ctx ps) = Inr r"
proof (induction ps)
  case Nil
  then show ?case by simp
next
  case (Cons p ps)
  obtain x evs where t: "call u h net p prompt ctx = (x, evs)"
    by (cases "call u h net p prompt ctx")
  from t Cons show ?case by (cases x) simp_all
qed

subsection \<open>Backoff\<close>

lemma backoff_0 [simp]: "backoff u p payload a 0 = []"
  by (simp add: backoff_def)

lemma backoff_Suc:
  "backoff u p payload a (Suc k) =
     [Fetch (endpoint p) payload, Sleep (retryDelay u * a)] @ backoff u p payload (Suc a) k"
  by (simp add: backoff_def upt_conv_Cons)

subsection \<open>Strings\<close>

lemma strip_Nil [simp]: "strip ws [] = []"
proof -
  have "find (\<lambda>w. w \<noteq> [] \<and> prefix w []) ws = None"
    by (simp add: find_None_iff)
  then show ?thesis
    by (subst strip.simps) simp
qed

lemma trim_Nil [simp]: "trim [] = []"
  by (simp add: trim_def)

lemma trim_space: "trim '' '' = []"
  by (simp add: trim_def whiteSpace_def strip.simps)

subsection \<open>The retry loop of part_000\<close>

lemma attempt_part000_429:
  "status_of (net (endpoint p) n) = Some 429 \<Longrightarrow>
   attempt_part000 u h net p payload n =
     (Continue, [Fetch (endpoint p) payload, Sleep (retryDelay u * n)])"
  by (cases "net (endpoint p) n") (simp_all add: attempt_part000_def ok_def)

lemma attempt_part000_success:
  "net (endpoint p) n = Response status (Json data) \<Longrightarrow> ok status \<Longrightarrow>
   extractResponse h p data = Inr v \<Longrightarrow>
   attempt_part000 u h net p payload n = (Return v, [Fetch (endpoint p) payload])"
  by (simp add: attempt_part000_def)

lemma attempt_part000_shape:
  "(\<exists>v. attempt_part000 u h net p payload n = (Return v, [Fetch (endpoint p) payload])) \<or>
   attempt_part000 u h net p payload n =
     (Continue, [Fetch (endpoint p) payload, Sleep (retryDelay u * n)]) \<or>
   (\<exists>e. attempt_part000 u h net p payload n = (Throw e, [Fetch (endpoint p) payload]))"
  by (simp add: attempt_part000_def split: outcome.split body.split sum.split)

lemma attempt_part000_cases:
  obtains (ret) v where "attempt_part000 u h net p payload n = (Return v, [Fetch (endpoint p) payload])"
  | (cont) "attempt_part000 u h net p payload n =
              (Continue, [Fetch (endpoint p) payload, Sleep (retryDelay u * n)])"
  | (thr) e where "attempt_part000 u h net p payload n = (Throw e, [Fetch (endpoint p) payload])"
  using attempt_part000_shape [of u h net p payload n] by blast

lemma callProvider_loop_return:
  "attempt \<le> maxRetries u \<Longrightarrow> attempt_part000 u h net p payload attempt = (Return v, evs) \<Longrightarrow>
   callProvider_loop u h net p payload attempt = (Inr v, evs)"
  by (subst callProvider_loop.simps) simp

lemma callProvider_loop_continue:
  "attempt \<le> maxRetries u \<Longrightarrow> attempt_part000 u h net p payload attempt = (Continue, evs) \<Longrightarrow>
   callProvider_loop u h net p payload attempt =
     prepend evs (callProvider_loop u h net p payload (Suc attempt))"
  by (subst callProvider_loop.simps) simp


lemma callProvider_loop_throw_retry:
  "attempt < maxRetries u \<Longrightarrow> attempt_part000 u h net p payload attempt = (Throw e, evs) \<Longrightarrow>
   callProvider_loop u h net p payload attempt =
     prepend (evs @ [Sleep (retryDelay u * attempt)])
       (callProvider_loop u h net p payload (Suc attempt))"
  by (subst callProvider_loop.simps) simp

lemma callProvider_loop_done:
  "maxRetries u < attempt \<Longrightarrow> callProvider_loop u h net p payload attempt = (Inr JUndefined, [])"
  by (subst callProvider_loop.simps) simp

text \<open>After \<open>k\<close> attempts in a row that do not return, none of them the last one, the
  loop stands at attempt \<open>a + k\<close> and has made the backoff's requests and sleeps.\<close>

lemma callProvider_loop_retry:
  "a + k \<le> maxRetries u \<Longrightarrow>
   (\<And>i v. a \<le> i \<Longrightarrow> i < a + k \<Longrightarrow> fst (attempt_part000 u h net p payload i) \<noteq> Return v) \<Longrightarrow>
   callProvider_loop u h net p payload a =
     prepend (backoff u p payload a k) (callProvider_loop u h net p payload (a + k))"
proof (induction k arbitrary: a)
  case 0
  then show ?case by simp
next
  case (Suc k)
  have le: "Suc a + k \<le> maxRetries u" and lt: "a < maxRetries u"
    using Suc.prems(1) by simp_all
  have rest: "callProvider_loop u h net p payload (Suc a) =
      prepend (backoff u p payload (Suc a) k) (callProvider_loop u h net p payload (Suc a + k))"
    by (rule Suc.IH [OF le]) (use Suc.prems(2) in simp)
  have here: "\<And>v. fst (attempt_part000 u h net p payload a) \<noteq> Return v"
    using Suc.prems(2) [of a] by simp
  show ?case
  proof (cases rule: attempt_part000_cases [of u h net p payload a])
    case (ret v)
    with here [of v] show ?thesis by simp
  next
    case cont
    with lt rest show ?thesis
      by (simp add: callProvider_loop_continue backoff_Suc)
  next
    case (thr e)
    with lt rest show ?thesis
      by (simp add: callProvider_loop_throw_retry backoff_Suc)
  qed
qed

subsection \<open>Events\<close>

lemma fetches_append [simp]: "fetches (xs @ ys) = fetches xs @ fetches ys"
  by (induction xs rule: fetches.induct) simp_all

lemma sleeps_append [simp]: "sleeps (xs @ ys) = sleeps xs @ sleeps ys"
  by (induction xs rule: sleeps.induct) simp_all

lemma fetches_backoff [simp]: "fetches (backoff u p payload a k) = replicate k (endpoint p)"
  by (induction k arbitrary: a) (simp_all add: backoff_Suc)

lemma sleeps_backoff [simp]:
  "sleeps (backoff u p payload a k) = map (\<lambda>i. retryDelay u * i) [a..<a + k]"
  by (induction k arbitrary: a) (simp_all add: backoff_Suc upt_conv_Cons)

subsection \<open>The retry loop of route.ts\<close>

lemma attempt_route_429:
  "status_of (net (endpoint p) i) = Some 429 \<Longrightarrow>
   attempt_route u h net p payload i =
     (Continue, [Fetch (endpoint p) payload, Sleep (retryDelay u * i)])"
  by (cases "net (endpoint p) i") (simp_all add: attempt_route_def ok_def)

lemma attempt_route_success:
  "net (endpoint p) i = Response status (Json data) \<Longrightarrow> ok status \<Longrightarrow>
   extract_route h p data = Inr v \<Longrightarrow>
   attempt_route u h net p payload i = (Return v, [Fetch (endpoint p) payload])"
  by (simp add: attempt_route_def)

lemma call_loop_return:
  "i \<le> maxRetries u \<Longrightarrow> attempt_route u h net p payload i = (Return v, evs) \<Longrightarrow>
   call_loop u h net p payload i = (Inr v, evs)"
  by (subst call_loop.simps) simp

lemma call_loop_continue:
  "i \<le> maxRetries u \<Longrightarrow> attempt_route u h net p payload i = (Continue, evs) \<Longrightarrow>
   call_loop u h net p payload i = prepend evs (call_loop u h net p payload (Suc i))"
  by (subst call_loop.simps) simp


lemma call_loop_done:
  "maxRetries u < i \<Longrightarrow> call_loop u h net p payload i = (Inr JUndefined, [])"
  by (subst call_loop.simps) simp

lemma call_loop_retry:
  "a + k \<le> Suc (maxRetries u) \<Longrightarrow>
   (\<And>i. a \<le> i \<Longrightarrow> i < a + k \<Longrightarrow> status_of (net (endpoint p) i) = Some 429) \<Longrightarrow>
   call_loop u h net p payload a =
     prepend (backoff u p payload a k) (call_loop u h net p payload (a + k))"
proof (induction k arbitrary: a)
  case 0
  then show ?case by simp
next
  case (Suc k)
  have le: "Suc a + k \<le> Suc (maxRetries u)" and here: "a \<le> maxRetries u"
    using Suc.prems(1) by simp_all
  have rest: "call_loop u h net p payload (Suc a) =
      prepend (backoff u p payload (Suc a) k) (call_loop u h net p payload (Suc a + k))"
    by (rule Suc.IH [OF le]) (use Suc.prems(2) in simp)
  have "status_of (net (endpoint p) a) = Some 429"
    using Suc.prems(2) [of a] by simp
  then have "call_loop u h net p payload a =
      prepend [Fetch (endpoint p) payload, Sleep (retryDelay u * a)]
        (call_loop u h net p payload (Suc a))"
    using here by (simp add: call_loop_continue attempt_route_429)
  with rest show ?case
    by (simp add: backoff_Suc)
qed

subsection \<open>A rate-limited provider that then answers\<close>

lemma callProvider_loop_limited:
  assumes "k < maxRetries u"
    and "\<And>i. 1 \<le> i \<Longrightarrow> i \<le> k \<Longrightarrow> status_of (net (endpoint p) i) = Some 429"
    and "net (endpoint p) (Suc k) = Response status (Json data)" and "ok status"
    and "extractResponse h p data = Inr v"
  shows "callProvider_loop u h net p payload 1 =
           (Inr v, backoff u p payload 1 k @ [Fetch (endpoint p) payload])"
proof -
  have "callProvider_loop u h net p payload 1 =
      prepend (backoff u p payload 1 k) (callProvider_loop u h net p payload (1 + k))"
  proof (rule callProvider_loop_retry)
    show "1 + k \<le> maxRetries u" using assms(1) by simp
    fix i v assume "1 \<le> i" "i < 1 + k"
    then have "status_of (net (endpoint p) i) = Some 429" using assms(2) by simp
    then show "fst (attempt_part000 u h net p payload i) \<noteq> Return v"
      by (simp add: attempt_part000_429)
  qed
  moreover have "callProvider_loop u h net p payload (1 + k) = (Inr v, [Fetch (endpoint p) payload])"
    using assms by (simp add: callProvider_loop_return attempt_part000_success)
  ultimately show ?thesis by simp
qed

lemma call_loop_limited:
  assumes "k < maxRetries u"
    and "\<And>i. 1 \<le> i \<Longrightarrow> i \<le> k \<Longrightarrow> status_of (net (endpoint p) i) = Some 429"
    and "net (endpoint p) (Suc k) = Response status (Json data)" and "ok status"
    and "extract_route h p data = Inr v"
  shows "call_loop u h net p payload 1 =
           (Inr v, backoff u p payload 1 k @ [Fetch (endpoint p) payload])"
proof -
  have "call_loop u h net p payload 1 =
      prepend (backoff u p payload 1 k) (call_loop u h net p payload (1 + k))"
    by (rule call_loop_retry) (use assms(1,2) in simp_all)
  moreover have "call_loop u h net p payload (1 + k) = (Inr v, [Fetch (endpoint p) payload])"
    using assms by (simp add: call_loop_return attempt_route_success)
  ultimately show ?thesis by simp
qed

text \<open>In part_000 only the \<open>openai\<close> case of \<open>extractResponse\<close> can give a truthy value.\<close>

lemma extractResponse_nonempty_openai:
  "extractResponse h p data = Inr v \<Longrightarrow> truthy v \<Longrightarrow> provider.name p = ''openai''"
  by (cases data) (auto simp: extractResponse_def opt_member_def split: if_splits)

lemma formatPayload_openai:
  "provider.name p = ''openai'' \<Longrightarrow> \<exists>payload. formatPayload p prompt ctx = Inr payload"
  by (simp add: formatPayload_def)

lemma nonblank_string: "trim t \<noteq> [] \<Longrightarrow> nonblank (JStr t) = Inr True"
  by (auto simp: nonblank_def)

lemma tryProvider_accept:
  "callProvider u h net p prompt ctx = (Inr (JStr t), evs) \<Longrightarrow> trim t \<noteq> [] \<Longrightarrow>
   tryProvider u h net p prompt ctx = (Inr (Some (JStr t)), evs)"
  by (simp add: tryProvider_def nonblank_string)

subsection \<open>Sample registries and bodies\<close>

lemma registry_openai_key:
  "initializeProviders openai_key = [openai]" "initProviders openai_key = [openai]"
  by (simp_all add: initializeProviders_def initProviders_def openai_key_def openai_def
        configured_def)

lemma registry_all_keys:
  "initializeProviders all_keys = [openai, anthropic, huggingface]"
  "initProviders all_keys = [openai, anthropic, huggingface]"
  by (simp_all add: initializeProviders_def initProviders_def all_keys_def openai_def
        anthropic_def huggingface_def configured_def)

lemma registry_no_keys:
  "initializeProviders no_keys = []" "initProviders no_keys = []"
  by (simp_all add: initializeProviders_def initProviders_def no_keys_def configured_def)

lemma extract_completion:
  "extractResponse h openai (completion c) = Inr (or_else c (JStr []))"
  "extract_route h openai (completion c) = Inr (or_else c (JStr []))"
  by (simp_all add: extractResponse_def extract_route_def openai_def completion_def
        opt_member_def opt_elem0_def own_def)

lemma trim_Hello: "trim ''Hello'' = ''Hello''"
  by (simp add: trim_def whiteSpace_def strip.simps)

subsection \<open>One provider's turn in the loop of \<open>generateText\<close>\<close>

lemma generateText_loop_accept:
  "callProvider u h net p prompt ctx = (Inr (JStr t), evs) \<Longrightarrow> trim t \<noteq> [] \<Longrightarrow>
   generateText_loop u h net prompt ctx (p # ps) =
     (Inr (Res \<lparr>res_text = JStr t, res_provider = provider.name p, res_model = model p\<rparr>), evs)"
  by (simp add: tryProvider_accept)


lemma generateText_loop_falsy:
  "callProvider u h net p prompt ctx = (Inr v, evs) \<Longrightarrow> \<not> truthy v \<Longrightarrow>
   generateText_loop u h net prompt ctx (p # ps) =
     prepend evs (generateText_loop u h net prompt ctx ps)"
  by (simp add: tryProvider_def nonblank_def)

lemma generateText_for_accept:
  "call u h net p prompt ctx = (Inr v, evs) \<Longrightarrow> truthy v \<Longrightarrow>
   generateText_for u h net prompt ctx (p # ps) =
     (Inr (Res \<lparr>res_text = v, res_provider = provider.name p, res_model = model p\<rparr>), evs)"
  by simp


lemma generateText_for_falsy:
  "call u h net p prompt ctx = (Inr v, evs) \<Longrightarrow> \<not> truthy v \<Longrightarrow>
   generateText_for u h net prompt ctx (p # ps) =
     prepend evs (generateText_for u h net prompt ctx ps)"
  by simp

subsection \<open>Failed attempts in part_000\<close>

lemma callProvider_loop_retry_then_return:
  assumes "k < maxRetries u"
    and "\<And>i v. 1 \<le> i \<Longrightarrow> i \<le> k \<Longrightarrow> fst (attempt_part000 u h net p payload i) \<noteq> Return v"
    and "attempt_part000 u h net p payload (Suc k) = (Return v, evs)"
  shows "callProvider_loop u h net p payload 1 = (Inr v, backoff u p payload 1 k @ evs)"
proof -
  have "callProvider_loop u h net p payload 1 =
      prepend (backoff u p payload 1 k) (callProvider_loop u h net p payload (1 + k))"
    by (rule callProvider_loop_retry) (use assms(1,2) in simp_all)
  moreover have "callProvider_loop u h net p payload (1 + k) = (Inr v, evs)"
    using assms(1,3) by (simp add: callProvider_loop_return)
  ultimately show ?thesis by simp
qed







text \<open>A provider of part_000 that answers after \<open>k\<close> failed attempts.\<close>

lemma generateText_loop_retry_then_accept:
  assumes "k < maxRetries u"
    and "\<And>i v. 1 \<le> i \<Longrightarrow> i \<le> k \<Longrightarrow> fst (attempt_part000 u h net p payload i) \<noteq> Return v"
    and "net (endpoint p) (Suc k) = Response status (Json data)" and "ok status"
    and "extractResponse h p data = Inr (JStr t)" and "trim t \<noteq> []"
    and "formatPayload p prompt ctx = Inr payload"
  shows "generateText_loop u h net prompt ctx (p # ps) =
           (Inr (Res \<lparr>res_text = JStr t, res_provider = provider.name p, res_model = model p\<rparr>),
            backoff u p payload 1 k @ [Fetch (endpoint p) payload])"
proof -
  have "attempt_part000 u h net p payload (Suc k) = (Return (JStr t), [Fetch (endpoint p) payload])"
    using assms(3,4,5) by (simp add: attempt_part000_success)
  from callProvider_loop_retry_then_return [OF assms(1,2) this]
  have "callProvider u h net p prompt ctx =
      (Inr (JStr t), backoff u p payload 1 k @ [Fetch (endpoint p) payload])"
    by (simp add: callProvider_def assms(7))
  from generateText_loop_accept [OF this assms(6)] show ?thesis .
qed

lemma formatPayload_of_answer:
  assumes "extractResponse h p data = Inr (JStr t)" and "trim t \<noteq> []"
  obtains payload where "formatPayload p prompt ctx = Inr payload"
proof -
  from assms(2) have "truthy (JStr t)" by auto
  with assms(1) have "provider.name p = ''openai''"
    by (rule extractResponse_nonempty_openai)
  then show ?thesis
    using formatPayload_openai that by blast
qed

subsection \<open>Running the program on a sample\<close>

text \<open>The equations that evaluate a run of \<open>generateText\<close> on concrete inputs.\<close>

lemmas run_defs =
  generateText_part000_def generateText_route_def constructor_part000_def constructor_route_def
  tryProvider_def callProvider_def call_def formatPayload_def makePayload_def
  callProvider_loop.simps call_loop.simps attempt_part000_def attempt_route_def
  ok_def extractResponse_def extract_route_def completion_def opt_member_def opt_elem0_def
  own_def or_else_def nonblank_def getFallbackResponse_def fallback_def
  openai_def anthropic_def huggingface_def no_context_def pickup_context_def

subsection \<open>The first attempt in route.ts\<close>

lemma generateText_for_first_answer:
  assumes "0 < maxRetries u"
    and "net (endpoint p) 1 = Response status (Json data)" and "ok status"
    and "extract_route h p data = Inr v" and "truthy v"
  shows "generateText_for u h net prompt ctx (p # ps) =
           (Inr (Res \<lparr>res_text = v, res_provider = provider.name p, res_model = model p\<rparr>),
            [Fetch (endpoint p) (makePayload p prompt ctx)])"
proof -
  have "attempt_route u h net p (makePayload p prompt ctx) 1 =
      (Return v, [Fetch (endpoint p) (makePayload p prompt ctx)])"
    using assms(2,3,4) by (rule attempt_route_success)
  then have "call u h net p prompt ctx = (Inr v, [Fetch (endpoint p) (makePayload p prompt ctx)])"
    unfolding call_def using assms(1) by (intro call_loop_return) simp_all
  then show ?thesis using assms(5) by (rule generateText_for_accept)
qed

subsection \<open>The fallback text of part_000\<close>

lemma templates_nonempty: "t \<in> set (templates ctx) \<Longrightarrow> t \<noteq> []"
  by (auto simp: templates_def)

text \<open>A natural lies between the powers of two that its number of digits names.\<close>

lemma bit_length_0 [simp]: "bit_length 0 = 0"
  by (simp add: bit_length.simps)

lemma bit_length_lower: "0 < n \<Longrightarrow> 2 ^ (bit_length n - 1) \<le> n"
proof (induction n rule: bit_length.induct)
  case (1 n)
  show ?case
  proof (cases "n div 2 = 0")
    case True
    with "1.prems" show ?thesis
      by (subst bit_length.simps) simp
  next
    case False
    then have "2 ^ (bit_length (n div 2) - 1) \<le> n div 2"
      using "1.IH" "1.prems" by simp
    moreover have "0 < bit_length (n div 2)"
      using False by (subst bit_length.simps) simp
    ultimately have "2 ^ bit_length (n div 2) \<le> 2 * (n div 2)"
      by (cases "bit_length (n div 2)") simp_all
    also have "\<dots> \<le> n" by simp
    finally show ?thesis
      using "1.prems" by (subst bit_length.simps) simp
  qed
qed

lemma bit_length_upper: "n < 2 ^ bit_length n"
proof (induction n rule: bit_length.induct)
  case (1 n)
  show ?case
  proof (cases "n = 0")
    case True
    then show ?thesis by simp
  next
    case False
    then have "n div 2 < 2 ^ bit_length (n div 2)" by (rule "1.IH")
    then have "n < 2 * 2 ^ bit_length (n div 2)" by simp
    with False show ?thesis by (subst bit_length.simps) simp
  qed
qed

lemma bit_length_eq:
  assumes "2 ^ b \<le> n" and "n < 2 ^ Suc b"
  shows "bit_length n = Suc b"
proof -
  from assms(1) have pos: "0 < n"
    by (cases "n = 0") simp_all
  have "(2::nat) ^ (bit_length n - 1) \<le> n"
    using pos by (rule bit_length_lower)
  then have "(2::nat) ^ (bit_length n - 1) < 2 ^ Suc b"
    using assms(2) by (rule le_less_trans)
  then have "bit_length n - 1 < Suc b"
    by (simp only: power_strict_increasing_iff one_less_numeral_iff semiring_norm)
  moreover have "n < 2 ^ bit_length n"
    by (rule bit_length_upper)
  with assms(1) have "(2::nat) ^ b < 2 ^ bit_length n"
    by (rule le_less_trans)
  then have "b < bit_length n"
    by (simp only: power_strict_increasing_iff one_less_numeral_iff semiring_norm)
  ultimately show ?thesis by arith
qed

text \<open>Rounding leaves a natural of at most 53 bits as it is and moves a longer one by
  at most half a unit of its last kept bit, so by less than one part in \<open>2 ^ 53\<close>.\<close>

lemma round53_exact: "bit_length M \<le> 53 \<Longrightarrow> round53 M = M"
  by (simp add: round53_def)

lemma round53_near: "2 * round53 M \<le> 2 * M + 2 ^ (bit_length M - 53)"
proof -
  define S where "S = (2::nat) ^ (bit_length M - 53)"
  define q where "q = M div S"
  define r where "r = M mod S"
  have M: "M = q * S + r"
    unfolding q_def r_def by (rule div_mult_mod_eq [symmetric])
  have R: "round53 M = (if S < 2 * r \<or> (2 * r = S \<and> odd q) then (q + 1) * S else q * S)"
    by (simp add: round53_def Let_def S_def q_def r_def)
  show ?thesis
  proof (cases "S < 2 * r \<or> (2 * r = S \<and> odd q)")
    case True
    then have "S \<le> 2 * r" by auto
    then have "2 * ((q + 1) * S) \<le> 2 * (q * S + r) + S"
      by (simp add: algebra_simps)
    with True R M show ?thesis
      unfolding S_def [symmetric] by simp
  next
    case False
    with R M show ?thesis
      unfolding S_def [symmetric] by simp
  qed
qed

lemma round53_upper: "round53 M * 2 ^ 53 \<le> M * (2 ^ 53 + 1)"
proof (cases "bit_length M \<le> 53")
  case True
  then have "round53 M = M" by (rule round53_exact)
  then show ?thesis by (simp only: mult_le_mono2 le_add1)
next
  case False
  define P where "P = (2::nat) ^ 53"
  define H where "H = (2::nat) ^ 52"
  define S where "S = (2::nat) ^ (bit_length M - 53)"
  have PH: "P = 2 * H"
    unfolding P_def H_def by (simp only: power_Suc [symmetric]) simp
  from False have pos: "0 < M"
    by (cases "M = 0") simp_all
  from False have e: "bit_length M - 1 = (bit_length M - 53) + 52" by arith
  have "2 ^ (bit_length M - 1) \<le> M"
    using pos by (rule bit_length_lower)
  then have "S * H \<le> M"
    unfolding e power_add S_def H_def .
  then have half: "S * P \<le> 2 * M"
    unfolding PH by simp
  have near: "2 * round53 M \<le> 2 * M + S"
    unfolding S_def by (rule round53_near)
  have "2 * round53 M * P \<le> (2 * M + S) * P"
    using near by (rule mult_le_mono1)
  also have "\<dots> = 2 * M * P + S * P"
    by (rule add_mult_distrib)
  also have "\<dots> \<le> 2 * M * P + 2 * M"
    using half by (rule add_left_mono)
  finally have "2 * (round53 M * P) \<le> 2 * (M * (P + 1))"
    by (simp add: algebra_simps)
  then have "round53 M * P \<le> M * (P + 1)" by simp
  then show ?thesis unfolding P_def .
qed

text \<open>The index drawn lies in the array: the greatest double below 1 is
  \<open>1 - 2 ^ -53\<close>, and rounding its product with \<open>n\<close> does not reach \<open>n\<close>.\<close>

lemma floor_times_less:
  assumes "is_unit_double x" and "0 < n"
  shows "floor_times x n < n"
proof -
  define P where "P = (2::nat) ^ 53"
  define m where "m = mantissa x"
  define k where "k = scale x"
  from assms(1) have m: "m < P" and k: "53 \<le> k"
    by (simp_all add: is_unit_double_def P_def m_def k_def)
  from m have "m + 1 \<le> P" by simp
  then have "(m + 1) * (P + 1) \<le> P * (P + 1)" by (rule mult_le_mono1)
  then have "m * (P + 1) + (P + 1) \<le> P * P + P" by (simp add: algebra_simps)
  then have "m * (P + 1) < P * P" by linarith
  then have a: "n * (m * (P + 1)) < n * (P * P)"
    using assms(2) by simp
  have b: "round53 (m * n) * P \<le> (m * n) * (P + 1)"
    unfolding P_def by (rule round53_upper)
  have c: "(m * n) * (P + 1) = n * (m * (P + 1))"
    by (simp only: mult.assoc mult.left_commute [of m n])
  have d: "n * (P * P) = (n * P) * P"
    by (simp only: mult.assoc)
  from b a have "round53 (m * n) * P < (n * P) * P"
    unfolding c d by (rule le_less_trans)
  then have "round53 (m * n) < n * P"
    by (simp only: mult_less_cancel2)
  also have "P \<le> 2 ^ k"
    unfolding P_def using k by (rule power_increasing) simp
  then have "n * P \<le> n * 2 ^ k" by (rule mult_le_mono2)
  finally have "round53 (m * n) < n * 2 ^ k" .
  then have "round53 (m * n) div 2 ^ k < n"
    by (simp add: less_mult_imp_div_less)
  then show ?thesis
    by (simp only: floor_times_def m_def k_def)
qed

lemma pickRandom_member:
  assumes "is_unit_double (Math_random h)" and "array \<noteq> []"
  shows "\<exists>t\<in>set array. pickRandom h array = JStr t"
proof -
  let ?i = "floor_times (Math_random h) (length array)"
  from assms(2) have "0 < length array" by simp
  with assms(1) have less: "?i < length array" by (rule floor_times_less)
  then have "array ! ?i \<in> set array" by simp
  moreover from less have "pickRandom h array = JStr (array ! ?i)"
    by (simp add: pickRandom_def Let_def)
  ultimately show ?thesis by blast
qed

text \<open>
  Two draws from three strings. One half picks the second. The double
  \<open>0.6666666666666666\<close> is \<open>6004799503160661 / 2 ^ 53\<close>; its exact product with 3 is
  \<open>2 - 2 ^ -53\<close>, which takes 54 bits and is rounded, on a tie, up to 2: the third
  string is picked, where the exact product would have picked the second.
\<close>

lemma floor_times_half: "floor_times \<lparr>mantissa = 2 ^ 52, scale = 53\<rparr> 3 = 1"
proof -
  have "bit_length (2 ^ 52 * 3) = Suc 53"
    by (rule bit_length_eq) simp_all
  then show ?thesis
    by (simp add: floor_times_def round53_def Let_def)
qed

lemma floor_times_two_thirds:
  "floor_times \<lparr>mantissa = 6004799503160661, scale = 53\<rparr> 3 = 2"
proof -
  have "bit_length (6004799503160661 * 3) = Suc 53"
    by (rule bit_length_eq) simp_all
  then show ?thesis
    by (simp add: floor_times_def round53_def Let_def)
qed

lemma sample_host_random: "is_unit_double (Math_random sample_host)"
  by (simp add: sample_host_def is_unit_double_def)

lemma pickRandom_sample: "pickRandom sample_host [a, b, c] = JStr b"
proof -
  have x: "Math_random sample_host = \<lparr>mantissa = 2 ^ 52, scale = 53\<rparr>"
    by (simp add: sample_host_def)
  have n: "length [a, b, c] = 3" by simp
  have "floor_times (Math_random sample_host) (length [a, b, c]) = 1"
    unfolding x n by (rule floor_times_half)
  then show ?thesis by (simp add: pickRandom_def)
qed

lemma pickRandom_two_thirds:
  "is_unit_double (Math_random two_thirds_host) \<and>
   pickRandom two_thirds_host [a, b, c] = JStr c"
proof -
  have x: "Math_random two_thirds_host = \<lparr>mantissa = 6004799503160661, scale = 53\<rparr>"
    by (simp add: two_thirds_host_def)
  have n: "length [a, b, c] = 3" by simp
  have "floor_times (Math_random two_thirds_host) (length [a, b, c]) = 2"
    unfolding x n by (rule floor_times_two_thirds)
  then have "pickRandom two_thirds_host [a, b, c] = JStr c"
    by (simp add: pickRandom_def)
  moreover have "is_unit_double (Math_random two_thirds_host)"
    unfolding x by (simp add: is_unit_double_def)
  ultimately show ?thesis by simp
qed

lemma getFallbackResponse_nonempty:
  assumes "is_unit_double (Math_random h)"
  shows "\<exists>t. getFallbackResponse h prompt ctx = JStr t \<and> t \<noteq> []"
proof (cases "type ctx = Some ''pickup_line''")
  case True
  have "templates ctx \<noteq> []" by (simp add: templates_def)
  from pickRandom_member [OF assms this] obtain t
    where "t \<in> set (templates ctx)" "pickRandom h (templates ctx) = JStr t" by blast
  with True show ?thesis
    by (auto simp: getFallbackResponse_def dest: templates_nonempty)
next
  case False
  then show ?thesis
    by (simp add: getFallbackResponse_def Let_def generic_fallback_def)
qed

subsection \<open>The names of the registry\<close>

lemma initializeProviders_names:
  "p \<in> set (initializeProviders e) \<Longrightarrow>
   provider.name p = ''openai'' \<or> provider.name p = ''anthropic'' \<or> provider.name p = ''huggingface''"
  by (auto simp: initializeProviders_def split: if_splits)

lemma initProviders_names:
  "p \<in> set (initProviders e) \<Longrightarrow>
   provider.name p = ''openai'' \<or> provider.name p = ''anthropic'' \<or> provider.name p = ''huggingface''"
  by (auto simp: initProviders_def split: if_splits)

lemma initializeProviders_not_fallback:
  "p \<in> set (initializeProviders e) \<Longrightarrow> provider.name p \<noteq> ''fallback''"
  by (auto dest: initializeProviders_names)

lemma initProviders_not_fallback:
  "p \<in> set (initProviders e) \<Longrightarrow> provider.name p \<noteq> ''fallback''"
  by (auto dest: initProviders_names)

subsection \<open>When a provider's output is taken\<close>

lemma nonblank_True_iff: "nonblank v = Inr True \<longleftrightarrow> (\<exists>t. v = JStr t \<and> trim t \<noteq> [])"
  by (cases v) (auto simp: nonblank_def)

lemma tryProvider_Some_iff:
  "fst (tryProvider u h net p prompt ctx) = Inr (Some v) \<longleftrightarrow>
   fst (callProvider u h net p prompt ctx) = Inr v \<and> (\<exists>t. v = JStr t \<and> trim t \<noteq> [])"
proof (cases "callProvider u h net p prompt ctx")
  case (Pair x evs)
  show ?thesis
  proof (cases x)
    case (Inl e)
    with Pair show ?thesis by (simp add: tryProvider_def)
  next
    case (Inr response)
    show ?thesis
    proof (cases "nonblank response")
      case (Inl e)
      with Pair Inr nonblank_True_iff [of response] show ?thesis
        by (auto simp: tryProvider_def)
    next
      case nb: (Inr b)
      with Pair Inr nonblank_True_iff [of response] show ?thesis
        by (cases b) (auto simp: tryProvider_def)
    qed
  qed
qed

lemma generateText_loop_tag:
  assumes "fallbackEnabled u"
    and "\<And>p. p \<in> set ps \<Longrightarrow> provider.name p \<noteq> ''fallback''"
    and "getFallbackResponse h prompt ctx = JStr ft" and "ft \<noteq> []"
  shows "\<exists>r t. fst (generateText_loop u h net prompt ctx ps) = Inr (Res r) \<and>
           res_text r = JStr t \<and> t \<noteq> [] \<and>
           (res_provider r = ''fallback'' \<longleftrightarrow>
              (\<forall>p\<in>set ps. \<not> (\<exists>t. fst (callProvider u h net p prompt ctx) = Inr (JStr t)
                                     \<and> trim t \<noteq> [])))"
  using assms(2)
proof (induction ps)
  case Nil
  with assms(3,4) show ?case by simp
next
  case (Cons p ps)
  have name: "provider.name p \<noteq> ''fallback''"
    using Cons.prems by simp
  have IH: "\<exists>r t. fst (generateText_loop u h net prompt ctx ps) = Inr (Res r) \<and>
           res_text r = JStr t \<and> t \<noteq> [] \<and>
           (res_provider r = ''fallback'' \<longleftrightarrow>
              (\<forall>p\<in>set ps. \<not> (\<exists>t. fst (callProvider u h net p prompt ctx) = Inr (JStr t)
                                     \<and> trim t \<noteq> [])))"
    using Cons.IH Cons.prems by simp
  obtain x evs where t: "tryProvider u h net p prompt ctx = (x, evs)"
    by (cases "tryProvider u h net p prompt ctx")
  show ?case
  proof (cases "\<exists>v. x = Inr (Some v)")
    case True
    then obtain v where x: "x = Inr (Some v)" by blast
    with t have "fst (tryProvider u h net p prompt ctx) = Inr (Some v)" by simp
    then obtain s where call: "fst (callProvider u h net p prompt ctx) = Inr (JStr s)"
      and s: "trim s \<noteq> []" and v: "v = JStr s"
      using tryProvider_Some_iff [of u h net p prompt ctx v] by blast
    from s have "s \<noteq> []" by auto
    with t x v name call s show ?thesis by auto
  next
    case False
    have none: "\<not> (\<exists>t. fst (callProvider u h net p prompt ctx) = Inr (JStr t) \<and> trim t \<noteq> [])"
    proof
      assume "\<exists>t. fst (callProvider u h net p prompt ctx) = Inr (JStr t) \<and> trim t \<noteq> []"
      then obtain s where "fst (callProvider u h net p prompt ctx) = Inr (JStr s)" "trim s \<noteq> []"
        by blast
      then have "fst (tryProvider u h net p prompt ctx) = Inr (Some (JStr s))"
        using tryProvider_Some_iff [of u h net p prompt ctx "JStr s"] by blast
      with t False show False by simp
    qed
    have "fst (generateText_loop u h net prompt ctx (p # ps)) =
        fst (generateText_loop u h net prompt ctx ps)"
    proof (cases x)
      case (Inl e)
      with t assms(1) show ?thesis by simp
    next
      case (Inr found)
      with False have "found = None" by (cases found) simp_all
      with t Inr show ?thesis by simp
    qed
    with IH none show ?thesis by auto
  qed
qed

lemma generateText_for_tag:
  assumes "\<And>p. p \<in> set ps \<Longrightarrow> provider.name p \<noteq> ''fallback''"
    and "\<And>p v. p \<in> set ps \<Longrightarrow> fst (call u h net p prompt ctx) = Inr v \<Longrightarrow> truthy v \<Longrightarrow>
           \<exists>s. v = JStr s"
  shows "\<exists>r t. fst (generateText_for u h net prompt ctx ps) = Inr (Res r) \<and>
           res_text r = JStr t \<and> t \<noteq> [] \<and>
           (res_provider r = ''fallback'' \<longleftrightarrow>
              (\<forall>p\<in>set ps. \<not> (\<exists>t. fst (call u h net p prompt ctx) = Inr (JStr t) \<and> t \<noteq> [])))"
  using assms
proof (induction ps)
  case Nil
  show ?case by (simp add: fallback_def)
next
  case (Cons p ps)
  have name: "provider.name p \<noteq> ''fallback''"
    using Cons.prems(1) by simp
  have IH: "\<exists>r t. fst (generateText_for u h net prompt ctx ps) = Inr (Res r) \<and>
           res_text r = JStr t \<and> t \<noteq> [] \<and>
           (res_provider r = ''fallback'' \<longleftrightarrow>
              (\<forall>p\<in>set ps. \<not> (\<exists>t. fst (call u h net p prompt ctx) = Inr (JStr t) \<and> t \<noteq> [])))"
  proof (rule Cons.IH)
    fix q assume "q \<in> set ps"
    then show "provider.name q \<noteq> ''fallback''" using Cons.prems(1) by simp
  next
    fix q v assume "q \<in> set ps" "fst (call u h net q prompt ctx) = Inr v" "truthy v"
    then show "\<exists>s. v = JStr s" using Cons.prems(2) [of q v] by simp
  qed
  obtain x evs where c: "call u h net p prompt ctx = (x, evs)"
    by (cases "call u h net p prompt ctx")
  show ?case
  proof (cases x)
    case (Inl e)
    with c IH show ?thesis by auto
  next
    case (Inr out)
    show ?thesis
    proof (cases "truthy out")
      case True
      with c Inr Cons.prems(2) [of p out] obtain s where s: "out = JStr s" by auto
      with True have "s \<noteq> []" by auto
      with c Inr True s name show ?thesis by auto
    next
      case False
      then have "\<not> (\<exists>t. out = JStr t \<and> t \<noteq> [])" by auto
      with c Inr False IH show ?thesis by auto
    qed
  qed
qed

subsection \<open>The empty registry in route.ts\<close>

lemma generateText_route_empty_registry:
  "generateText_route (constructor_route no_keys) h net prompt ctx =
     (Inr (Res \<lparr>res_text = JStr (fallback prompt ctx), res_provider = ''fallback'',
                res_model = ''local''\<rparr>), [])"
  by (simp add: generateText_route_def constructor_route_def registry_no_keys)

subsection \<open>The pickup-line templates\<close>

lemma getFallbackResponse_pickup:
  assumes "type ctx = Some ''pickup_line''" and "is_unit_double (Math_random h)"
  shows "\<exists>t\<in>set (templates ctx). getFallbackResponse h prompt ctx = JStr t \<and> t \<noteq> []"
proof -
  have "templates ctx \<noteq> []" by (simp add: templates_def)
  from pickRandom_member [OF assms(2) this] obtain t
    where "t \<in> set (templates ctx)" "pickRandom h (templates ctx) = JStr t" by blast
  with assms(1) show ?thesis
    by (auto simp: getFallbackResponse_def dest: templates_nonempty)
qed

subsection \<open>The numbers of a payload\<close>

text \<open>\<open>field || default\<close> on a number: the default stands in for a missing field and
  for zero alike.\<close>

lemma num_or_simps:
  "num_or None d = d" "num_or (Some 0) d = d" "x \<noteq> 0 \<Longrightarrow> num_or (Some x) d = x"
  by (simp_all add: num_or_def)

lemma makePayload_numbers:
  "provider.name p = ''openai'' \<or> provider.name p = ''anthropic'' \<Longrightarrow>
   member (makePayload p prompt ctx) ''max_tokens'' = Inr (JNum (num_or (maxTokens ctx) 150)) \<and>
   member (makePayload p prompt ctx) ''temperature'' =
     Inr (JNum (num_or (temperature ctx) (8 / 10)))"
  "provider.name p = ''huggingface'' \<Longrightarrow>
   opt_member (opt_member (makePayload p prompt ctx) ''parameters'') ''max_new_tokens'' =
     JNum (num_or (maxTokens ctx) 150) \<and>
   opt_member (opt_member (makePayload p prompt ctx) ''parameters'') ''temperature'' =
     JNum (num_or (temperature ctx) (8 / 10))"
  by (auto simp: makePayload_def own_def opt_member_def)

lemma formatPayload_numbers:
  "provider.name p = ''openai'' \<or> provider.name p = ''anthropic'' \<Longrightarrow>
   \<exists>payload. formatPayload p prompt ctx = Inr payload \<and>
     member payload ''max_tokens'' = Inr (JNum (num_or (maxTokens ctx) 150)) \<and>
     member payload ''temperature'' = Inr (JNum (num_or (temperature ctx) (8 / 10)))"
  "provider.name p = ''huggingface'' \<Longrightarrow>
   \<exists>payload. formatPayload p prompt ctx = Inr payload \<and>
     opt_member (opt_member payload ''parameters'') ''max_new_tokens'' =
       JNum (num_or (maxTokens ctx) 150) \<and>
     opt_member (opt_member payload ''parameters'') ''temperature'' =
       JNum (num_or (temperature ctx) (8 / 10))"
  by (auto simp: formatPayload_def own_def opt_member_def)

subsection \<open>A provider that is rate-limited on every attempt\<close>

text \<open>
  After the last 429 and its wait the retry loop runs out and returns \<open>undefined\<close>;
  \<open>generateText\<close> takes that for no output and goes on to the next provider, without a
  warning. This holds in both editions.
\<close>

lemma callProvider_loop_limited_run:
  "a + k \<le> Suc (maxRetries u) \<Longrightarrow>
   (\<And>i. a \<le> i \<Longrightarrow> i < a + k \<Longrightarrow> status_of (net (endpoint p) i) = Some 429) \<Longrightarrow>
   callProvider_loop u h net p payload a =
     prepend (backoff u p payload a k) (callProvider_loop u h net p payload (a + k))"
proof (induction k arbitrary: a)
  case 0
  then show ?case by simp
next
  case (Suc k)
  have le: "Suc a + k \<le> Suc (maxRetries u)" and here: "a \<le> maxRetries u"
    using Suc.prems(1) by simp_all
  have rest: "callProvider_loop u h net p payload (Suc a) =
      prepend (backoff u p payload (Suc a) k) (callProvider_loop u h net p payload (Suc a + k))"
    by (rule Suc.IH [OF le]) (use Suc.prems(2) in simp)
  have "status_of (net (endpoint p) a) = Some 429"
    using Suc.prems(2) [of a] by simp
  then have "callProvider_loop u h net p payload a =
      prepend [Fetch (endpoint p) payload, Sleep (retryDelay u * a)]
        (callProvider_loop u h net p payload (Suc a))"
    using here by (simp add: callProvider_loop_continue attempt_part000_429)
  with rest show ?case
    by (simp add: backoff_Suc)
qed

lemma generateText_loop_always_limited:
  assumes "\<And>i. 1 \<le> i \<Longrightarrow> i \<le> maxRetries u \<Longrightarrow> status_of (net (endpoint p) i) = Some 429"
    and "formatPayload p prompt ctx = Inr payload"
  shows "generateText_loop u h net prompt ctx (p # ps) =
           prepend (backoff u p payload 1 (maxRetries u)) (generateText_loop u h net prompt ctx ps)"
proof -
  have "callProvider_loop u h net p payload 1 =
      prepend (backoff u p payload 1 (maxRetries u))
        (callProvider_loop u h net p payload (1 + maxRetries u))"
    by (rule callProvider_loop_limited_run) (use assms(1) in simp_all)
  then have "callProvider u h net p prompt ctx = (Inr JUndefined, backoff u p payload 1 (maxRetries u))"
    by (simp add: callProvider_def assms(2) callProvider_loop_done)
  then show ?thesis
    by (rule generateText_loop_falsy) simp
qed

lemma generateText_for_always_limited:
  assumes "\<And>i. 1 \<le> i \<Longrightarrow> i \<le> maxRetries u \<Longrightarrow> status_of (net (endpoint p) i) = Some 429"
  shows "generateText_for u h net prompt ctx (p # ps) =
           prepend (backoff u p (makePayload p prompt ctx) 1 (maxRetries u))
             (generateText_for u h net prompt ctx ps)"
proof -
  have "call_loop u h net p (makePayload p prompt ctx) 1 =
      prepend (backoff u p (makePayload p prompt ctx) 1 (maxRetries u))
        (call_loop u h net p (makePayload p prompt ctx) (1 + maxRetries u))"
    by (rule call_loop_retry) (use assms in simp_all)
  then have "call u h net p prompt ctx =
      (Inr JUndefined, backoff u p (makePayload p prompt ctx) 1 (maxRetries u))"
    by (simp add: call_def call_loop_done)
  then show ?thesis
    by (rule generateText_for_falsy) simp
qed

subsection \<open>The loop and the method\<close>





subsection \<open>The result of the loop\<close>







subsection \<open>Rate limits followed by a throw, in route.ts\<close>


section \<open>The claims\<close>



text \<open>
  Claim C2, amended. Let \<open>Math.random()\<close> return a double of \<open>[0, 1)\<close>, as the language
  promises. In part_000, when at least one provider is configured, \<open>generateText\<close>
  returns an object whose \<open>text\<close> is a non-empty string, and its \<open>provider\<close> is
  \<open>"fallback"\<close> if and only if no provider of the registry is one whose \<open>callProvider\<close>
  returns a string that is not empty after \<open>trim\<close>. In route.ts, when every truthy value
  that \<open>call\<close> returns for a provider of the registry is a string, \<open>generateText\<close>
  returns an object whose \<open>text\<close> is a non-empty string, and its \<open>provider\<close> is
  \<open>"fallback"\<close> if and only if no provider of the registry is one whose \<open>call\<close> returns a
  non-empty string. What part_000 returns for the empty registry is the subject of claim
  C3, and an extracted content that is not a string that of claim C10; both are left out
  here.
\<close>

theorem result_text_and_fallback_tag:
  assumes "is_unit_double (Math_random h)"
  shows
    "(providers (constructor_part000 e) \<noteq> [] \<longrightarrow>
        (\<exists>r t. fst (generateText_part000 (constructor_part000 e) h net prompt ctx) = Inr (Res r) \<and>
           res_text r = JStr t \<and> t \<noteq> [] \<and>
           (res_provider r = ''fallback'' \<longleftrightarrow>
              (\<forall>p\<in>set (providers (constructor_part000 e)).
                 \<not> (\<exists>t. fst (callProvider (constructor_part000 e) h net p prompt ctx) = Inr (JStr t)
                        \<and> trim t \<noteq> []))))) \<and>
     ((\<forall>p\<in>set (providers (constructor_route e)). \<forall>v.
          fst (call (constructor_route e) h net p prompt ctx) = Inr v \<and> truthy v \<longrightarrow>
            (\<exists>s. v = JStr s)) \<longrightarrow>
        (\<exists>r t. fst (generateText_route (constructor_route e) h net prompt ctx) = Inr (Res r) \<and>
           res_text r = JStr t \<and> t \<noteq> [] \<and>
           (res_provider r = ''fallback'' \<longleftrightarrow>
              (\<forall>p\<in>set (providers (constructor_route e)).
                 \<not> (\<exists>t. fst (call (constructor_route e) h net p prompt ctx) = Inr (JStr t)
                        \<and> t \<noteq> [])))))"
proof (intro conjI impI)
  let ?u = "constructor_part000 e"
  assume nonempty: "providers ?u \<noteq> []"
  obtain ft where ft: "getFallbackResponse h prompt ctx = JStr ft" "ft \<noteq> []"
    using getFallbackResponse_nonempty [OF assms] by blast
  have enabled: "fallbackEnabled ?u"
    by (simp add: constructor_part000_def)
  have names: "provider.name p \<noteq> ''fallback''" if "p \<in> set (providers ?u)" for p
    using that by (simp add: constructor_part000_def initializeProviders_not_fallback)
  have "generateText_part000 ?u h net prompt ctx =
      generateText_loop ?u h net prompt ctx (providers ?u)"
    using nonempty by (simp add: generateText_part000_def)
  with generateText_loop_tag [where ps = "providers ?u" and net = net and u = ?u,
      OF enabled names ft]
  show "\<exists>r t. fst (generateText_part000 ?u h net prompt ctx) = Inr (Res r) \<and>
           res_text r = JStr t \<and> t \<noteq> [] \<and>
           (res_provider r = ''fallback'' \<longleftrightarrow>
              (\<forall>p\<in>set (providers ?u).
                 \<not> (\<exists>t. fst (callProvider ?u h net p prompt ctx) = Inr (JStr t) \<and> trim t \<noteq> [])))"
    by simp
next
  let ?u = "constructor_route e"
  assume strings: "\<forall>p\<in>set (providers ?u). \<forall>v.
      fst (call ?u h net p prompt ctx) = Inr v \<and> truthy v \<longrightarrow> (\<exists>s. v = JStr s)"
  have names: "provider.name p \<noteq> ''fallback''" if "p \<in> set (providers ?u)" for p
    using that by (simp add: constructor_route_def initProviders_not_fallback)
  have string: "\<exists>s. v = JStr s"
    if "p \<in> set (providers ?u)" "fst (call ?u h net p prompt ctx) = Inr v" "truthy v" for p v
    using strings that by blast
  have "generateText_route ?u h net prompt ctx = generateText_for ?u h net prompt ctx (providers ?u)"
    by (cases "providers ?u") (simp_all add: generateText_route_def)
  with generateText_for_tag [where ps = "providers ?u" and net = net and u = ?u and h = h
      and prompt = prompt and ctx = ctx, OF names string]
  show "\<exists>r t. fst (generateText_route ?u h net prompt ctx) = Inr (Res r) \<and>
           res_text r = JStr t \<and> t \<noteq> [] \<and>
           (res_provider r = ''fallback'' \<longleftrightarrow>
              (\<forall>p\<in>set (providers ?u).
                 \<not> (\<exists>t. fst (call ?u h net p prompt ctx) = Inr (JStr t) \<and> t \<noteq> [])))"
    by simp
qed

text \<open>The theorem for the registry of the OpenAI key alone, on a network that answers
  (\<open>hello_net\<close>: the result is the provider's) and on one that does not (\<open>down_net\<close>:
  the result is the fallback's), in both editions.\<close>

theorem result_text_and_fallback_tag_witness:
  "is_unit_double (Math_random sample_host) \<and>
   providers (constructor_part000 openai_key) \<noteq> [] \<and>
   (\<exists>r t. fst (generateText_part000 (constructor_part000 openai_key) sample_host hello_net ''hi''
               pickup_context) = Inr (Res r) \<and>
      res_text r = JStr t \<and> t \<noteq> [] \<and> res_provider r \<noteq> ''fallback'') \<and>
   fst (callProvider (constructor_part000 openai_key) sample_host hello_net openai ''hi''
          pickup_context) = Inr (JStr ''Hello'') \<and>
   (\<exists>r t. fst (generateText_part000 (constructor_part000 openai_key) sample_host down_net ''hi''
               pickup_context) = Inr (Res r) \<and>
      res_text r = JStr t \<and> t \<noteq> [] \<and> res_provider r = ''fallback'') \<and>
   fst (callProvider (constructor_part000 openai_key) sample_host down_net openai ''hi''
          pickup_context) = Inl TimeoutError \<and>
   providers (constructor_route openai_key) = [openai] \<and>
   (\<exists>r t. fst (generateText_route (constructor_route openai_key) sample_host hello_net ''hi''
               pickup_context) = Inr (Res r) \<and>
      res_text r = JStr t \<and> t \<noteq> [] \<and> res_provider r \<noteq> ''fallback'') \<and>
   fst (call (constructor_route openai_key) sample_host hello_net openai ''hi'' pickup_context) =
     Inr (JStr ''Hello'') \<and>
   (\<exists>r t. fst (generateText_route (constructor_route openai_key) sample_host down_net ''hi''
               pickup_context) = Inr (Res r) \<and>
      res_text r = JStr t \<and> t \<noteq> [] \<and> res_provider r = ''fallback'') \<and>
   fst (call (constructor_route openai_key) sample_host down_net openai ''hi'' pickup_context) =
     Inl TimeoutError"
proof -
  note random = sample_host_random
  have registry: "providers (constructor_part000 openai_key) = [openai]"
    "providers (constructor_route openai_key) = [openai]"
    by (simp_all add: constructor_part000_def constructor_route_def registry_openai_key)
  have hello: "fst (callProvider (constructor_part000 openai_key) sample_host hello_net openai
      ''hi'' pickup_context) = Inr (JStr ''Hello'')"
    "fst (call (constructor_route openai_key) sample_host hello_net openai ''hi''
      pickup_context) = Inr (JStr ''Hello'')"
    by (simp_all add: run_defs hello_net_def)
  have down: "fst (callProvider (constructor_part000 openai_key) sample_host down_net openai
      ''hi'' pickup_context) = Inl TimeoutError"
    "fst (call (constructor_route openai_key) sample_host down_net openai ''hi''
      pickup_context) = Inl TimeoutError"
    by (simp_all add: run_defs down_net_def)
  note on_hello = result_text_and_fallback_tag [OF random, where e = openai_key
      and net = hello_net and prompt = "''hi''" and ctx = pickup_context]
  note on_down = result_text_and_fallback_tag [OF random, where e = openai_key
      and net = down_net and prompt = "''hi''" and ctx = pickup_context]
  from on_hello on_down show ?thesis
    unfolding registry
    by (simp add: random hello down trim_Hello)
qed

text \<open>
  The claim as worded fails in part_000, where usable is more than non-empty: the call
  to the one provider produces the extracted text \<open>" "\<close>, which is not empty, and the
  result is tagged \<open>"fallback"\<close>.
\<close>

theorem blank_text_falls_back:
  "space_net (endpoint openai) 1 = Response 200 (Json (completion (JStr '' ''))) \<and>
   extractResponse sample_host openai (completion (JStr '' '')) = Inr (JStr '' '') \<and>
   fst (callProvider (constructor_part000 openai_key) sample_host space_net openai ''hi''
          no_context) = Inr (JStr '' '') \<and>
   fst (generateText_part000 (constructor_part000 openai_key) sample_host space_net ''hi''
          no_context) =
     Inr (Res \<lparr>res_text = JStr generic_fallback, res_provider = ''fallback'',
               res_model = ''local''\<rparr>)"
  by (simp add: run_defs registry_openai_key space_net_def trim_space)

text \<open>
  Claim C3. The code of part_000 does not do what the claim says: with no credential
  the registry is empty and \<open>generateText\<close> returns the text of
  \<open>getFallbackResponse\<close> itself, a string, for every prompt and context and without any
  request. A caller that reads \<open>provider\<close>, \<open>model\<close> or \<open>text\<close> from it, as the tool
  handlers do, gets \<open>undefined\<close>, not \<open>"fallback"\<close>, \<open>"local"\<close> and the text. The last
  line is the text for the prompt \<open>"hi"\<close> and the context \<open>{type: "pickup_line"}\<close> under
  the sample host. The return after the loop in the same method, and route.ts on the
  empty registry (\<open>generateText_route_empty_registry\<close>), build the tagged object.
\<close>

theorem empty_registry_returns_bare_text:
  "providers (constructor_part000 no_keys) = [] \<and>
   generateText_part000 (constructor_part000 no_keys) h net prompt ctx =
     (Inr (Bare (getFallbackResponse h prompt ctx)), []) \<and>
   provider_of (Bare (getFallbackResponse h prompt ctx)) = JUndefined \<and>
   model_of (Bare (getFallbackResponse h prompt ctx)) = JUndefined \<and>
   text_of (Bare (getFallbackResponse h prompt ctx)) = JUndefined \<and>
   getFallbackResponse sample_host ''hi'' pickup_context =
     JStr ''If I were to write a love story, beautiful, you would be both the beginning and the happy ending.''"
  by (simp add: generateText_part000_def constructor_part000_def registry_no_keys
        getFallbackResponse_def pickup_context_def no_context_def pickRandom_sample
        templates_def str_or_def)

text \<open>
  Claim C4, amended. Let the \<open>for\<close> loop of \<open>generateText\<close> stand at a provider \<open>p\<close>
  (with \<open>ps\<close> still to come) whose endpoint answers 429 on the attempts 1 to \<open>k\<close>, with
  \<open>k < maxRetries\<close>, and on attempt \<open>k + 1\<close> answers a 2xx status with a body that parses.
  In route.ts, if the value extracted from the body is truthy (a non-empty string is),
  and in part_000, if it is a string that is not empty after \<open>trim\<close>, then
  \<open>generateText\<close> returns that value with the name and the model of \<open>p\<close>, the requests
  sent are \<open>k + 1\<close>, all to the endpoint of \<open>p\<close>, and the waits are
  \<open>retryDelay * i\<close> for \<open>i\<close> from 1 to \<open>k\<close>. The constructors set \<open>maxRetries\<close> to 3 and
  \<open>retryDelay\<close> to 1000. (The loop stands at \<open>p\<close> when \<open>p\<close> is the first provider of the
  registry, and when the providers before it gave no output that is taken:
  \<open>generateText_part000_loop\<close>, \<open>generateText_route_for\<close>, \<open>generateText_loop_skip\<close>,
  \<open>generateText_for_skip\<close>.)
\<close>

theorem rate_limited_then_success:
  assumes "k < maxRetries u"
    and "\<forall>i\<in>{1..k}. status_of (net (endpoint p) i) = Some 429"
    and "net (endpoint p) (k + 1) = Response status (Json data)" and "ok status"
  shows
    "(extractResponse h p data = Inr (JStr t) \<and> trim t \<noteq> [] \<longrightarrow>
        fst (generateText_loop u h net prompt ctx (p # ps)) =
          Inr (Res \<lparr>res_text = JStr t, res_provider = provider.name p, res_model = model p\<rparr>) \<and>
        fetches (snd (generateText_loop u h net prompt ctx (p # ps))) =
          replicate (k + 1) (endpoint p) \<and>
        sleeps (snd (generateText_loop u h net prompt ctx (p # ps))) =
          map (\<lambda>i. retryDelay u * i) [1..<k + 1]) \<and>
     (extract_route h p data = Inr v \<and> truthy v \<longrightarrow>
        fst (generateText_for u h net prompt ctx (p # ps)) =
          Inr (Res \<lparr>res_text = v, res_provider = provider.name p, res_model = model p\<rparr>) \<and>
        fetches (snd (generateText_for u h net prompt ctx (p # ps))) =
          replicate (k + 1) (endpoint p) \<and>
        sleeps (snd (generateText_for u h net prompt ctx (p # ps))) =
          map (\<lambda>i. retryDelay u * i) [1..<k + 1]) \<and>
     maxRetries (constructor_part000 e) = 3 \<and> retryDelay (constructor_part000 e) = 1000 \<and>
     maxRetries (constructor_route e) = 3 \<and> retryDelay (constructor_route e) = 1000"
proof (intro conjI impI)
  have limited: "\<And>i. 1 \<le> i \<Longrightarrow> i \<le> k \<Longrightarrow> status_of (net (endpoint p) i) = Some 429"
    using assms(2) by simp
  have answer: "net (endpoint p) (Suc k) = Response status (Json data)"
    using assms(3) by simp
  {
    assume ex: "extractResponse h p data = Inr (JStr t) \<and> trim t \<noteq> []"
    then have "truthy (JStr t)" by auto
    with ex have "provider.name p = ''openai''"
      using extractResponse_nonempty_openai by blast
    then obtain payload where pl: "formatPayload p prompt ctx = Inr payload"
      using formatPayload_openai by blast
    from ex have e1: "extractResponse h p data = Inr (JStr t)" by simp
    have "callProvider_loop u h net p payload 1 =
        (Inr (JStr t), backoff u p payload 1 k @ [Fetch (endpoint p) payload])"
      by (rule callProvider_loop_limited [where net = net and p = p and k = k,
            OF assms(1) limited answer assms(4) e1])
    with pl have "callProvider u h net p prompt ctx =
        (Inr (JStr t), backoff u p payload 1 k @ [Fetch (endpoint p) payload])"
      by (simp add: callProvider_def)
    with ex have run: "generateText_loop u h net prompt ctx (p # ps) =
        (Inr (Res \<lparr>res_text = JStr t, res_provider = provider.name p, res_model = model p\<rparr>),
         backoff u p payload 1 k @ [Fetch (endpoint p) payload])"
      by (simp add: tryProvider_accept)
    show "fst (generateText_loop u h net prompt ctx (p # ps)) =
        Inr (Res \<lparr>res_text = JStr t, res_provider = provider.name p, res_model = model p\<rparr>)"
      unfolding run by simp
    show "fetches (snd (generateText_loop u h net prompt ctx (p # ps))) =
        replicate (k + 1) (endpoint p)"
      unfolding run by (simp add: replicate_append_same)
    show "sleeps (snd (generateText_loop u h net prompt ctx (p # ps))) =
        map (\<lambda>i. retryDelay u * i) [1..<k + 1]"
      unfolding run by simp
  }
  {
    assume ex: "extract_route h p data = Inr v \<and> truthy v"
    from ex have e1: "extract_route h p data = Inr v" by simp
    have "call u h net p prompt ctx =
        (Inr v, backoff u p (makePayload p prompt ctx) 1 k
                  @ [Fetch (endpoint p) (makePayload p prompt ctx)])"
      unfolding call_def
      by (rule call_loop_limited [where net = net and p = p and k = k,
            OF assms(1) limited answer assms(4) e1])
    with ex have run: "generateText_for u h net prompt ctx (p # ps) =
        (Inr (Res \<lparr>res_text = v, res_provider = provider.name p, res_model = model p\<rparr>),
         backoff u p (makePayload p prompt ctx) 1 k
           @ [Fetch (endpoint p) (makePayload p prompt ctx)])"
      by simp
    show "fst (generateText_for u h net prompt ctx (p # ps)) =
        Inr (Res \<lparr>res_text = v, res_provider = provider.name p, res_model = model p\<rparr>)"
      unfolding run by simp
    show "fetches (snd (generateText_for u h net prompt ctx (p # ps))) =
        replicate (k + 1) (endpoint p)"
      unfolding run by (simp add: replicate_append_same)
    show "sleeps (snd (generateText_for u h net prompt ctx (p # ps))) =
        map (\<lambda>i. retryDelay u * i) [1..<k + 1]"
      unfolding run by simp
  }
qed (simp_all add: constructor_part000_def constructor_route_def)


text \<open>The theorem at \<open>k = 2\<close>, for the registry of the OpenAI key alone and the network
  \<open>limited_net\<close>: three requests, waits of 1000 and 2000.\<close>

theorem rate_limited_then_success_witness:
  "2 < maxRetries (constructor_part000 openai_key) \<and>
   status_of (limited_net (endpoint openai) 1) = Some 429 \<and>
   status_of (limited_net (endpoint openai) 2) = Some 429 \<and>
   limited_net (endpoint openai) 3 = Response 200 (Json (completion (JStr ''Hello''))) \<and>
   ok 200 \<and>
   extractResponse sample_host openai (completion (JStr ''Hello'')) = Inr (JStr ''Hello'') \<and>
   extract_route sample_host openai (completion (JStr ''Hello'')) = Inr (JStr ''Hello'') \<and>
   fst (generateText_part000 (constructor_part000 openai_key) sample_host limited_net ''hi''
          pickup_context) =
     Inr (Res \<lparr>res_text = JStr ''Hello'', res_provider = ''openai'',
               res_model = ''gpt-3.5-turbo''\<rparr>) \<and>
   fetches (snd (generateText_part000 (constructor_part000 openai_key) sample_host limited_net
                   ''hi'' pickup_context)) =
     [endpoint openai, endpoint openai, endpoint openai] \<and>
   sleeps (snd (generateText_part000 (constructor_part000 openai_key) sample_host limited_net
                  ''hi'' pickup_context)) = [1000, 2000] \<and>
   fst (generateText_route (constructor_route openai_key) sample_host limited_net ''hi''
          pickup_context) =
     Inr (Res \<lparr>res_text = JStr ''Hello'', res_provider = ''openai'',
               res_model = ''gpt-3.5-turbo''\<rparr>) \<and>
   fetches (snd (generateText_route (constructor_route openai_key) sample_host limited_net
                   ''hi'' pickup_context)) =
     [endpoint openai, endpoint openai, endpoint openai] \<and>
   sleeps (snd (generateText_route (constructor_route openai_key) sample_host limited_net
                  ''hi'' pickup_context)) = [1000, 2000]"
proof -
  have same: "constructor_route openai_key = constructor_part000 openai_key"
    by (simp add: constructor_route_def constructor_part000_def registry_openai_key)
  have budget: "2 < maxRetries (constructor_part000 openai_key)"
    by (simp add: constructor_part000_def)
  have limited: "\<forall>i\<in>{1..2}. status_of (limited_net (endpoint openai) i) = Some 429"
    by (simp add: limited_net_def)
  have answer: "limited_net (endpoint openai) (2 + 1) =
      Response 200 (Json (completion (JStr ''Hello'')))"
    by (simp add: limited_net_def)
  have ok: "ok 200"
    by (simp add: ok_def)
  have upt: "map ((*) 1000) [Suc 0..<3] = [1000, 2000::nat]"
    by code_simp
  have three: "replicate 3 x = [x, x, x]" for x :: string
    by (simp add: numeral_3_eq_3)
  let ?u = "constructor_part000 openai_key"
  note main = rate_limited_then_success [where net = limited_net and p = openai and k = 2
      and u = ?u and h = sample_host and t = "''Hello''" and prompt = "''hi''"
      and ctx = pickup_context and ps = "[]" and v = "JStr ''Hello''" and e = openai_key,
      OF budget limited answer ok]
  have ex: "extractResponse sample_host openai (completion (JStr ''Hello'')) = Inr (JStr ''Hello'')"
    "extract_route sample_host openai (completion (JStr ''Hello'')) = Inr (JStr ''Hello'')"
    by (simp_all add: extract_completion or_else_def)
  have part: "generateText_part000 ?u sample_host limited_net ''hi'' pickup_context =
      generateText_loop ?u sample_host limited_net ''hi'' pickup_context [openai]"
    by (simp add: generateText_part000_def constructor_part000_def registry_openai_key
          del: generateText_loop.simps)
  have route: "generateText_route (constructor_route openai_key) sample_host limited_net ''hi''
        pickup_context =
      generateText_for ?u sample_host limited_net ''hi'' pickup_context [openai]"
    by (simp add: generateText_route_def same constructor_part000_def registry_openai_key
          del: generateText_for.simps)
  have names: "provider.name openai = ''openai''" "model openai = ''gpt-3.5-turbo''"
    by (simp_all add: openai_def)
  have delay: "retryDelay ?u = 1000"
    by (simp add: constructor_part000_def)
  from main ex show ?thesis
    unfolding part route
    by (simp add: trim_Hello upt three names delay budget limited_net_def ok_def
          del: generateText_loop.simps generateText_for.simps)
qed

text \<open>
  The claim as worded fails in part_000: there \<open>generateText\<close> tests
  \<open>response.trim().length > 0\<close>. The endpoint answers 429 once and then 200 with the
  completion \<open>" "\<close>; the extracted text \<open>" "\<close> is not empty, and still the result
  is the fallback's.
\<close>

theorem whitespace_after_rate_limit:
  "status_of (blank_net (endpoint openai) 1) = Some 429 \<and>
   blank_net (endpoint openai) 2 = Response 200 (Json (completion (JStr '' ''))) \<and>
   extractResponse sample_host openai (completion (JStr '' '')) = Inr (JStr '' '') \<and>
   fst (generateText_part000 (constructor_part000 openai_key) sample_host blank_net ''hi''
          no_context) =
     Inr (Res \<lparr>res_text = JStr generic_fallback, res_provider = ''fallback'',
               res_model = ''local''\<rparr>)"
proof -
  let ?u = "constructor_part000 openai_key"
  obtain payload where pl: "formatPayload openai ''hi'' no_context = Inr payload"
    using formatPayload_openai [of openai] by (auto simp: openai_def)
  have "callProvider_loop ?u sample_host blank_net openai payload 1 =
      (Inr (JStr '' ''), backoff ?u openai payload 1 1 @ [Fetch (endpoint openai) payload])"
    by (rule callProvider_loop_limited [where net = blank_net and p = openai and k = 1
          and status = 200 and data = "completion (JStr '' '')"])
       (simp_all add: constructor_part000_def blank_net_def ok_def extract_completion or_else_def)
  with pl have "tryProvider ?u sample_host blank_net openai ''hi'' no_context =
      (Inr None, backoff ?u openai payload 1 1 @ [Fetch (endpoint openai) payload])"
    by (simp add: tryProvider_def callProvider_def nonblank_def trim_space)
  then show ?thesis
    by (simp add: generateText_part000_def constructor_part000_def registry_openai_key
          blank_net_def extract_completion or_else_def getFallbackResponse_def no_context_def)
qed

text \<open>
  Claim C5, amended. Let \<open>p\<close> be the first provider of the registry and let its first
  attempt get a 2xx answer with a body that parses. If the extracted value is, in
  route.ts, truthy (a non-empty string is) and, in part_000, a string that is not empty
  after \<open>trim\<close>, then \<open>generateText\<close> returns that value with the name and the model
  of \<open>p\<close>, and the only event of the call is the one request to the endpoint
  of \<open>p\<close>: no other provider is asked.
\<close>

theorem first_provider_short_circuit:
  assumes "providers u = p # ps" and "0 < maxRetries u"
    and "net (endpoint p) 1 = Response status (Json data)" and "ok status"
  shows
    "(extractResponse h p data = Inr (JStr t) \<and> trim t \<noteq> [] \<longrightarrow>
        (\<exists>payload. formatPayload p prompt ctx = Inr payload \<and>
           generateText_part000 u h net prompt ctx =
             (Inr (Res \<lparr>res_text = JStr t, res_provider = provider.name p,
                        res_model = model p\<rparr>),
              [Fetch (endpoint p) payload]))) \<and>
     (extract_route h p data = Inr v \<and> truthy v \<longrightarrow>
        generateText_route u h net prompt ctx =
          (Inr (Res \<lparr>res_text = v, res_provider = provider.name p, res_model = model p\<rparr>),
           [Fetch (endpoint p) (makePayload p prompt ctx)]))"
proof (intro conjI impI)
  assume ex: "extractResponse h p data = Inr (JStr t) \<and> trim t \<noteq> []"
  then have e1: "extractResponse h p data = Inr (JStr t)" and e2: "trim t \<noteq> []"
    by simp_all
  obtain payload where pl: "formatPayload p prompt ctx = Inr payload"
    using formatPayload_of_answer [OF e1 e2] .
  have answer: "net (endpoint p) (Suc 0) = Response status (Json data)"
    using assms(3) by simp
  have "generateText_loop u h net prompt ctx (p # ps) =
      (Inr (Res \<lparr>res_text = JStr t, res_provider = provider.name p, res_model = model p\<rparr>),
       backoff u p payload 1 0 @ [Fetch (endpoint p) payload])"
    by (rule generateText_loop_retry_then_accept [where k = 0 and net = net and p = p,
          OF assms(2) _ answer assms(4) e1 e2 pl]) simp
  then have "generateText_part000 u h net prompt ctx =
      (Inr (Res \<lparr>res_text = JStr t, res_provider = provider.name p, res_model = model p\<rparr>),
       [Fetch (endpoint p) payload])"
    by (simp add: generateText_part000_def assms(1) del: generateText_loop.simps)
  with pl show "\<exists>payload. formatPayload p prompt ctx = Inr payload \<and>
      generateText_part000 u h net prompt ctx =
        (Inr (Res \<lparr>res_text = JStr t, res_provider = provider.name p, res_model = model p\<rparr>),
         [Fetch (endpoint p) payload])"
    by blast
next
  assume ex: "extract_route h p data = Inr v \<and> truthy v"
  then have e1: "extract_route h p data = Inr v" and e2: "truthy v"
    by simp_all
  have "generateText_for u h net prompt ctx (p # ps) =
      (Inr (Res \<lparr>res_text = v, res_provider = provider.name p, res_model = model p\<rparr>),
       [Fetch (endpoint p) (makePayload p prompt ctx)])"
    by (rule generateText_for_first_answer [where net = net and p = p,
          OF assms(2,3,4) e1 e2])
  then show "generateText_route u h net prompt ctx =
      (Inr (Res \<lparr>res_text = v, res_provider = provider.name p, res_model = model p\<rparr>),
       [Fetch (endpoint p) (makePayload p prompt ctx)])"
    by (simp add: generateText_route_def assms(1) del: generateText_for.simps)
qed

text \<open>The theorem for the registry of all three keys and the network \<open>hello_net\<close>.\<close>

theorem first_provider_short_circuit_witness:
  "providers (constructor_part000 all_keys) = [openai, anthropic, huggingface] \<and>
   providers (constructor_route all_keys) = [openai, anthropic, huggingface] \<and>
   0 < maxRetries (constructor_part000 all_keys) \<and>
   hello_net (endpoint openai) 1 = Response 200 (Json (completion (JStr ''Hello''))) \<and>
   ok 200 \<and>
   extractResponse sample_host openai (completion (JStr ''Hello'')) = Inr (JStr ''Hello'') \<and>
   extract_route sample_host openai (completion (JStr ''Hello'')) = Inr (JStr ''Hello'') \<and>
   fst (generateText_part000 (constructor_part000 all_keys) sample_host hello_net ''hi''
          pickup_context) =
     Inr (Res \<lparr>res_text = JStr ''Hello'', res_provider = ''openai'',
               res_model = ''gpt-3.5-turbo''\<rparr>) \<and>
   fetches (snd (generateText_part000 (constructor_part000 all_keys) sample_host hello_net ''hi''
                   pickup_context)) = [endpoint openai] \<and>
   fst (generateText_route (constructor_route all_keys) sample_host hello_net ''hi''
          pickup_context) =
     Inr (Res \<lparr>res_text = JStr ''Hello'', res_provider = ''openai'',
               res_model = ''gpt-3.5-turbo''\<rparr>) \<and>
   fetches (snd (generateText_route (constructor_route all_keys) sample_host hello_net ''hi''
                   pickup_context)) = [endpoint openai]"
proof -
  let ?u = "constructor_part000 all_keys"
  have same: "constructor_route all_keys = ?u"
    by (simp add: constructor_route_def constructor_part000_def registry_all_keys)
  have registry: "providers ?u = openai # [anthropic, huggingface]"
    by (simp add: constructor_part000_def registry_all_keys)
  have budget: "0 < maxRetries ?u"
    by (simp add: constructor_part000_def)
  have answer: "hello_net (endpoint openai) 1 = Response 200 (Json (completion (JStr ''Hello'')))"
    by (simp add: hello_net_def)
  have ok: "ok 200"
    by (simp add: ok_def)
  note main = first_provider_short_circuit [where net = hello_net and h = sample_host
      and t = "''Hello''" and v = "JStr ''Hello''" and prompt = "''hi''" and ctx = pickup_context,
      OF registry budget answer ok]
  have ex: "extractResponse sample_host openai (completion (JStr ''Hello'')) = Inr (JStr ''Hello'')"
    "extract_route sample_host openai (completion (JStr ''Hello'')) = Inr (JStr ''Hello'')"
    by (simp_all add: extract_completion or_else_def)
  have names: "provider.name openai = ''openai''" "model openai = ''gpt-3.5-turbo''"
    by (simp_all add: openai_def)
  from main ex show ?thesis
    by (auto simp add: same registry budget hello_net_def ok trim_Hello names)
qed

text \<open>
  The claim as worded fails in part_000. With all three keys set and every answer the
  completion \<open>" "\<close>, the first provider yields the non-empty text \<open>" "\<close> on its first
  attempt; \<open>generateText\<close> does not return it but goes on to ask the two other
  providers, and ends with the fallback.
\<close>

theorem blank_first_answer:
  "providers (constructor_part000 all_keys) = [openai, anthropic, huggingface] \<and>
   space_net (endpoint openai) 1 = Response 200 (Json (completion (JStr '' ''))) \<and>
   extractResponse sample_host openai (completion (JStr '' '')) = Inr (JStr '' '') \<and>
   fst (generateText_part000 (constructor_part000 all_keys) sample_host space_net ''hi''
          no_context) =
     Inr (Res \<lparr>res_text = JStr generic_fallback, res_provider = ''fallback'',
               res_model = ''local''\<rparr>) \<and>
   fetches (snd (generateText_part000 (constructor_part000 all_keys) sample_host space_net ''hi''
                   no_context)) =
     [endpoint openai, endpoint anthropic, endpoint huggingface]"
proof (intro conjI)
  show "providers (constructor_part000 all_keys) = [openai, anthropic, huggingface]"
    by (simp add: constructor_part000_def registry_all_keys)
  show "space_net (endpoint openai) 1 = Response 200 (Json (completion (JStr '' '')))"
    by (simp add: space_net_def)
  show "extractResponse sample_host openai (completion (JStr '' '')) = Inr (JStr '' '')"
    by (simp add: extract_completion or_else_def)
  show "fst (generateText_part000 (constructor_part000 all_keys) sample_host space_net ''hi''
          no_context) =
     Inr (Res \<lparr>res_text = JStr generic_fallback, res_provider = ''fallback'',
               res_model = ''local''\<rparr>)"
    by (simp add: run_defs registry_all_keys space_net_def trim_space)
  show "fetches (snd (generateText_part000 (constructor_part000 all_keys) sample_host space_net
                   ''hi'' no_context)) =
     [endpoint openai, endpoint anthropic, endpoint huggingface]"
    by (simp add: run_defs registry_all_keys space_net_def trim_space)
qed







text \<open>
  Claim C8, amended. The two editions differ. In part_000, with \<open>Math.random()\<close> a
  double of \<open>[0, 1)\<close>, \<open>getFallbackResponse\<close> for the type \<open>"pickup_line"\<close> returns one of the three
  templates, a non-empty string; the templates hold \<open>userInfo\<close> where the context gives
  one and the words \<open>you\<close>, \<open>beautiful\<close> and \<open>gorgeous\<close> where it gives none. For a type
  that is neither \<open>"pickup_line"\<close> nor \<open>"flirty_reply"\<close> (or no type at all) it returns
  the one generic string, and in every case a non-empty string. In route.ts \<open>fallback\<close>
  returns the same fixed non-empty string, a robot emoji followed by
  \<open>(fallback response)\<close>, for every prompt and context.
\<close>

theorem fallback_renderers:
  "(type ctx = Some ''pickup_line'' \<and> is_unit_double (Math_random h) \<longrightarrow>
      (\<exists>t\<in>set (templates ctx). getFallbackResponse h prompt ctx = JStr t \<and> t \<noteq> [])) \<and>
   (userInfo ctx = None \<longrightarrow>
      templates ctx =
        [''Just like Shah Rukh Khan in his movies, you have made my heart skip a beat!'',
         ''If I were to write a love story, beautiful, you would be both the beginning and the happy ending.'',
         ''Main hoon na, gorgeous? Because like SRK, I promise to always be there for you.'']) \<and>
   (userInfo ctx = Some who \<and> who \<noteq> [] \<longrightarrow>
      templates ctx =
        [''Just like Shah Rukh Khan in his movies, '' @ who @ '' have made my heart skip a beat!'',
         ''If I were to write a love story, '' @ who
           @ '', you would be both the beginning and the happy ending.'',
         ''Main hoon na, '' @ who @ ''? Because like SRK, I promise to always be there for you.'']) \<and>
   (type ctx \<noteq> Some ''pickup_line'' \<and> type ctx \<noteq> Some ''flirty_reply'' \<longrightarrow>
      getFallbackResponse h prompt ctx =
        JStr ''I'm here to help! Let me know what you'd like to know.'') \<and>
   (is_unit_double (Math_random h) \<longrightarrow>
      (\<exists>t. getFallbackResponse h prompt ctx = JStr t \<and> t \<noteq> [])) \<and>
   fallback prompt ctx = robot @ '' (fallback response)'' \<and>
   fallback prompt ctx \<noteq> []"
proof (intro conjI impI)
  assume "type ctx = Some ''pickup_line'' \<and> is_unit_double (Math_random h)"
  then show "\<exists>t\<in>set (templates ctx). getFallbackResponse h prompt ctx = JStr t \<and> t \<noteq> []"
    using getFallbackResponse_pickup [of ctx h prompt] by simp
next
  assume "userInfo ctx = None"
  then show "templates ctx =
        [''Just like Shah Rukh Khan in his movies, you have made my heart skip a beat!'',
         ''If I were to write a love story, beautiful, you would be both the beginning and the happy ending.'',
         ''Main hoon na, gorgeous? Because like SRK, I promise to always be there for you.'']"
    by (simp add: templates_def str_or_def)
next
  assume "userInfo ctx = Some who \<and> who \<noteq> []"
  then show "templates ctx =
        [''Just like Shah Rukh Khan in his movies, '' @ who @ '' have made my heart skip a beat!'',
         ''If I were to write a love story, '' @ who
           @ '', you would be both the beginning and the happy ending.'',
         ''Main hoon na, '' @ who @ ''? Because like SRK, I promise to always be there for you.'']"
    by (simp add: templates_def str_or_def)
next
  assume "type ctx \<noteq> Some ''pickup_line'' \<and> type ctx \<noteq> Some ''flirty_reply''"
  then show "getFallbackResponse h prompt ctx =
      JStr ''I'm here to help! Let me know what you'd like to know.''"
    by (simp add: getFallbackResponse_def generic_fallback_def)
next
  assume "is_unit_double (Math_random h)"
  then show "\<exists>t. getFallbackResponse h prompt ctx = JStr t \<and> t \<noteq> []"
    using getFallbackResponse_nonempty [of h prompt ctx] by simp
qed (simp_all add: fallback_def)

text \<open>The theorem under the sample host, whose draw of one half picks the second
  template: for \<open>{type: "pickup_line"}\<close>, for the same context with the \<open>userInfo\<close>
  \<open>"Simran"\<close>, and for the empty context; and under the host whose draw is
  \<open>0.6666666666666666\<close>, which picks the third template.\<close>

theorem fallback_renderers_witness:
  "type pickup_context = Some ''pickup_line'' \<and>
   is_unit_double (Math_random sample_host) \<and>
   userInfo pickup_context = None \<and>
   getFallbackResponse sample_host ''hi'' pickup_context =
     JStr ''If I were to write a love story, beautiful, you would be both the beginning and the happy ending.'' \<and>
   ''If I were to write a love story, beautiful, you would be both the beginning and the happy ending.''
     \<in> set (templates pickup_context) \<and>
   userInfo (pickup_context\<lparr>userInfo := Some ''Simran''\<rparr>) = Some ''Simran'' \<and>
   getFallbackResponse sample_host ''hi'' (pickup_context\<lparr>userInfo := Some ''Simran''\<rparr>) =
     JStr ''If I were to write a love story, Simran, you would be both the beginning and the happy ending.'' \<and>
   type no_context \<noteq> Some ''pickup_line'' \<and> type no_context \<noteq> Some ''flirty_reply'' \<and>
   getFallbackResponse sample_host ''hi'' no_context =
     JStr ''I'm here to help! Let me know what you'd like to know.'' \<and>
   fallback ''hi'' pickup_context \<noteq> [] \<and>
   is_unit_double (Math_random two_thirds_host) \<and>
   getFallbackResponse two_thirds_host ''hi'' pickup_context =
     JStr ''Main hoon na, gorgeous? Because like SRK, I promise to always be there for you.'' \<and>
   ''Main hoon na, gorgeous? Because like SRK, I promise to always be there for you.''
     \<in> set (templates pickup_context)"
proof -
  note pickup = fallback_renderers [where ctx = pickup_context and h = sample_host
      and prompt = "''hi''"]
  note named = fallback_renderers [where ctx = "pickup_context\<lparr>userInfo := Some ''Simran''\<rparr>"
      and h = sample_host and prompt = "''hi''" and who = "''Simran''"]
  note generic = fallback_renderers [where ctx = no_context and h = sample_host
      and prompt = "''hi''"]
  note random = sample_host_random
  have fields: "type pickup_context = Some ''pickup_line''" "userInfo pickup_context = None"
    "type no_context = None"
    by (simp_all add: pickup_context_def no_context_def)
  have picked: "pickRandom sample_host [a, b, c] = JStr b" for a b c
    by (rule pickRandom_sample)
  have picked': "pickRandom two_thirds_host [a, b, c] = JStr c" for a b c
    using pickRandom_two_thirds [of a b c] by simp
  have random': "is_unit_double (Math_random two_thirds_host)"
    using pickRandom_two_thirds [of "[]" "[]" "[]"] by simp
  from pickup have t1: "templates pickup_context =
        [''Just like Shah Rukh Khan in his movies, you have made my heart skip a beat!'',
         ''If I were to write a love story, beautiful, you would be both the beginning and the happy ending.'',
         ''Main hoon na, gorgeous? Because like SRK, I promise to always be there for you.'']"
    by (simp add: fields)
  from named have t2: "templates (pickup_context\<lparr>userInfo := Some ''Simran''\<rparr>) =
        [''Just like Shah Rukh Khan in his movies, Simran have made my heart skip a beat!'',
         ''If I were to write a love story, Simran, you would be both the beginning and the happy ending.'',
         ''Main hoon na, Simran? Because like SRK, I promise to always be there for you.'']"
    by simp
  from generic have t3: "getFallbackResponse sample_host ''hi'' no_context =
      JStr ''I'm here to help! Let me know what you'd like to know.''"
    by (simp add: fields)
  from pickup have t4: "fallback ''hi'' pickup_context \<noteq> []"
    by blast
  have g1: "getFallbackResponse sample_host ''hi'' pickup_context =
      pickRandom sample_host (templates pickup_context)"
    by (simp add: getFallbackResponse_def fields)
  have g2: "getFallbackResponse sample_host ''hi'' (pickup_context\<lparr>userInfo := Some ''Simran''\<rparr>) =
      pickRandom sample_host (templates (pickup_context\<lparr>userInfo := Some ''Simran''\<rparr>))"
    by (simp add: getFallbackResponse_def fields)
  have g3: "getFallbackResponse two_thirds_host ''hi'' pickup_context =
      pickRandom two_thirds_host (templates pickup_context)"
    by (simp add: getFallbackResponse_def fields)
  show ?thesis
    unfolding g1 g2 g3 t1 t2 t3 picked picked'
    using t4 by (simp add: random random' fields)
qed

text \<open>
  The claim as worded fails in route.ts: for the type \<open>"pickup_line"\<close> its renderer
  returns the fixed string, which is none of the templates.
\<close>

theorem route_fallback_is_a_stub:
  "type pickup_context = Some ''pickup_line'' \<and>
   fallback ''hi'' pickup_context = robot @ '' (fallback response)'' \<and>
   fallback ''hi'' pickup_context \<notin> set (templates pickup_context)"
  by (simp add: fallback_def robot_def templates_def pickup_context_def no_context_def str_or_def)

text \<open>
  Claim C9. The code does not do what the claim says for the temperature 0: every
  payload is built with \<open>context.temperature || 0.8\<close>, and 0 is falsy. For the context
  \<open>{temperature: 0}\<close> the payloads of all three providers, in both editions, carry the
  temperature 0.8. (\<open>makePayload_numbers\<close> and \<open>formatPayload_numbers\<close> give the two
  fields for every context: the caller's number unless it is missing or zero.)
\<close>

theorem zero_temperature_replaced:
  "temperature zero_temperature = Some 0 \<and>
   formatPayload openai ''hi'' zero_temperature =
     Inr (JObj
       [(''model'', JStr ''gpt-3.5-turbo''),
        (''messages'', JArr
           [JObj [(''role'', JStr ''system''), (''content'', JStr ''You are a helpful assistant.'')],
            JObj [(''role'', JStr ''user''), (''content'', JStr ''hi'')]]),
        (''max_tokens'', JNum 150),
        (''temperature'', JNum (8 / 10)),
        (''top_p'', JNum (9 / 10))]) \<and>
   member (makePayload openai ''hi'' zero_temperature) ''temperature'' = Inr (JNum (8 / 10)) \<and>
   member (makePayload anthropic ''hi'' zero_temperature) ''temperature'' = Inr (JNum (8 / 10)) \<and>
   opt_member (opt_member (makePayload huggingface ''hi'' zero_temperature) ''parameters'')
     ''temperature'' = JNum (8 / 10) \<and>
   JNum (8 / 10) \<noteq> JNum 0"
  by (simp add: zero_temperature_def no_context_def formatPayload_def makePayload_def openai_def
        anthropic_def huggingface_def str_or_def num_or_def own_def opt_member_def)

text \<open>
  Claim C10. The extraction is not total. For the name \<open>openai\<close> both editions read
  \<open>data.choices\<close> without \<open>?.\<close>, so the body \<open>null\<close> throws a \<open>TypeError\<close>, while the
  \<open>anthropic\<close> line of route.ts, written \<open>data?.content\<close>, returns the empty string on
  the same body. In route.ts the \<open>huggingface\<close> branch calls \<open>replace\<close> on a
  \<open>generated_text\<close> that is truthy but no string, here the number 5, which throws as
  well. And a truthy \<open>content\<close> that is no string is returned as it is: the result is
  the number 5, not a string.
\<close>

theorem extraction_throws:
  "extract_route h openai JNull = Inl TypeError \<and>
   extractResponse h openai JNull = Inl TypeError \<and>
   extract_route h anthropic JNull = Inr (JStr []) \<and>
   extract_route h huggingface (JArr [JObj [(''generated_text'', JNum 5)]]) = Inl TypeError \<and>
   extract_route h openai (completion (JNum 5)) = Inr (JNum 5)"
  by (simp add: extract_route_def extractResponse_def openai_def anthropic_def huggingface_def
        completion_def opt_member_def opt_elem0_def own_def or_else_def call_replace_def)

end
